theory Spec2Isabelle
  imports Complex_Main
begin

section \<open>The array library, as far as linear.py uses it\<close>

text \<open>
  linear.py composes operations of numpy: \<open>ndim\<close>, \<open>len\<close>, \<open>reshape\<close>, \<open>T\<close>, \<open>dot\<close>,
  \<open>sum(0)\<close>, the in-place \<open>+=\<close> with broadcasting, \<open>repeat\<close>. An array is its dtype tag,
  its shape and its elements in row-major (C) order. The element type is a type
  parameter with the laws of a semiring: the rounding of float32 arithmetic is not
  modelled, the dtype is carried as a tag. Views and copies are not distinguished: no
  function of linear.py writes to an array that another name still reads.
\<close>

datatype dtype = Int32 | Int64 | Float32 | Float64

datatype error =
    InvalidType
  | ValueError
  | IndexError
  | TypeError
  | KeyError
  | AssertionError
  | ZeroDivisionError
  | AttributeError
  | Unmodelled

record 'a ndarray =
  dtype :: dtype
  shape :: "nat list"
  data :: "'a list"

definition ebind :: "error + 'a \<Rightarrow> ('a \<Rightarrow> error + 'b) \<Rightarrow> error + 'b" where
  "ebind m f = (case m of Inl e \<Rightarrow> Inl e | Inr v \<Rightarrow> f v)"

text \<open>Python's \<open>xs[i]\<close> on a tuple and \<open>d[k]\<close> on a dict.\<close>

definition item :: "'a list \<Rightarrow> nat \<Rightarrow> error + 'a" where
  "item xs i = (if i < length xs then Inr (xs ! i) else Inl IndexError)"

definition lookup :: "('k \<rightharpoonup> 'v) \<Rightarrow> 'k \<Rightarrow> error + 'v" where
  "lookup m k = (case m k of None \<Rightarrow> Inl KeyError | Some v \<Rightarrow> Inr v)"

definition ndim :: "'a ndarray \<Rightarrow> nat" where
  "ndim a = length (shape a)"

definition size_of :: "'a ndarray \<Rightarrow> nat" where
  "size_of a = prod_list (shape a)"

text \<open>\<open>len(a)\<close>: the first dimension; a TypeError on a 0-dimensional array.\<close>

definition np_len :: "'a ndarray \<Rightarrow> error + nat" where
  "np_len a = (case shape a of [] \<Rightarrow> Inl TypeError | m # _ \<Rightarrow> Inr m)"

text \<open>
  \<open>a.reshape(n, -1)\<close>: the second dimension is inferred; numpy raises a ValueError when
  \<open>n\<close> is 0 or does not divide the size.
\<close>

definition np_reshape_infer :: "'a ndarray \<Rightarrow> nat \<Rightarrow> error + 'a ndarray" where
  "np_reshape_infer a n =
     (if n = 0 then Inl ValueError
      else if size_of a mod n = 0 then Inr (a\<lparr>shape := [n, size_of a div n]\<rparr>)
      else Inl ValueError)"

text \<open>\<open>a.reshape(s)\<close> for an explicit shape.\<close>

definition np_reshape :: "'a ndarray \<Rightarrow> nat list \<Rightarrow> error + 'a ndarray" where
  "np_reshape a s = (if prod_list s = size_of a then Inr (a\<lparr>shape := s\<rparr>) else Inl ValueError)"

text \<open>Row-major positions: the multi-index of a flat position and back.\<close>

fun unravel :: "nat list \<Rightarrow> nat \<Rightarrow> nat list" where
  "unravel [] k = []"
| "unravel (d # ds) k = (k div prod_list ds) mod d # unravel ds k"

fun ravel :: "nat list \<Rightarrow> nat list \<Rightarrow> nat" where
  "ravel (d # ds) (i # ix) = i * prod_list ds + ravel ds ix"
| "ravel _ _ = 0"

text \<open>\<open>a.T\<close>: the axes reversed.\<close>

definition np_T :: "'a ndarray \<Rightarrow> 'a ndarray" where
  "np_T a =
     \<lparr>dtype = dtype a, shape = rev (shape a),
      data = map (\<lambda>k. data a ! ravel (shape a) (rev (unravel (rev (shape a)) k)))
               [0..<size_of a]\<rparr>"

fun is_float :: "dtype \<Rightarrow> bool" where
  "is_float Float32 = True"
| "is_float Float64 = True"
| "is_float _ = False"

text \<open>numpy's type promotion on the four tags.\<close>

definition result_type :: "dtype \<Rightarrow> dtype \<Rightarrow> dtype" where
  "result_type s t =
     (if s = t then s
      else if is_float s \<or> is_float t then Float64
      else Int64)"

text \<open>
  \<open>a.dot(b)\<close> of two matrices; a ValueError when the inner dimensions differ. linear.py
  calls it on matrices only when its inputs are valid; other ranks are outside this model.
\<close>

definition np_dot :: "'a::semiring_0 ndarray \<Rightarrow> 'a ndarray \<Rightarrow> error + 'a ndarray" where
  "np_dot a b =
     (if ndim a = 2 \<and> ndim b = 2 then
        (let m = shape a ! 0; k = shape a ! 1; n = shape b ! 1 in
         if shape b ! 0 = k then
           Inr \<lparr>dtype = result_type (dtype a) (dtype b), shape = [m, n],
                data = map (\<lambda>p. sum_list (map (\<lambda>l. data a ! ((p div n) * k + l) *
                                                   data b ! (l * n + p mod n)) [0..<k]))
                         [0..<m * n]\<rparr>
         else Inl ValueError)
      else Inl Unmodelled)"

text \<open>\<open>a.sum(0)\<close>: the sum over the first axis; 32-bit integers are summed as 64-bit ones.\<close>

definition np_sum0 :: "'a::semiring_0 ndarray \<Rightarrow> error + 'a ndarray" where
  "np_sum0 a =
     (case shape a of
        [] \<Rightarrow> Inl ValueError
      | m # rest \<Rightarrow>
          Inr \<lparr>dtype = (if dtype a = Int32 then Int64 else dtype a), shape = rest,
               data = map (\<lambda>k. sum_list (map (\<lambda>i. data a ! (i * prod_list rest + k)) [0..<m]))
                        [0..<prod_list rest]\<rparr>)"

text \<open>
  \<open>a += b\<close>: \<open>b\<close> is broadcast to the shape of \<open>a\<close> (trailing axes aligned, an axis of
  length 1 repeated), a ValueError otherwise; the result keeps the dtype of \<open>a\<close>, and
  a float array added into an integer one is a TypeError (casting rule same_kind).
\<close>

definition broadcastable :: "nat list \<Rightarrow> nat list \<Rightarrow> bool" where
  "broadcastable sa sb =
     (length sb \<le> length sa \<and>
      list_all2 (\<lambda>da db. db = da \<or> db = 1) (drop (length sa - length sb) sa) sb)"

definition bcast_index :: "nat list \<Rightarrow> nat list \<Rightarrow> nat \<Rightarrow> nat" where
  "bcast_index sa sb k =
     ravel sb (map2 (\<lambda>db i. if db = 1 then 0 else i) sb
                 (drop (length sa - length sb) (unravel sa k)))"

definition np_iadd :: "'a::semiring_0 ndarray \<Rightarrow> 'a ndarray \<Rightarrow> error + 'a ndarray" where
  "np_iadd a b =
     (if broadcastable (shape a) (shape b) then
        (if is_float (dtype b) \<and> \<not> is_float (dtype a) then Inl TypeError
         else Inr (a\<lparr>data := map (\<lambda>k. data a ! k + data b ! bcast_index (shape a) (shape b) k)
                              [0..<size_of a]\<rparr>))
      else Inl ValueError)"

text \<open>\<open>numpy.repeat(numpy.float32(v), n)\<close> and \<open>numpy.zeros_like(a)\<close>.\<close>

definition np_repeat :: "'a \<Rightarrow> nat \<Rightarrow> 'a ndarray" where
  "np_repeat v n = \<lparr>dtype = Float32, shape = [n], data = replicate n v\<rparr>"

definition np_zeros_like :: "'a::semiring_0 ndarray \<Rightarrow> 'a ndarray" where
  "np_zeros_like a = a\<lparr>data := replicate (size_of a) 0\<rparr>"

section \<open>linear.py\<close>

text \<open>\<open>_as_mat\<close>\<close>

definition as_mat :: "'a ndarray \<Rightarrow> error + 'a ndarray" where
  "as_mat x =
     (if ndim x = 2 then Inr x
      else ebind (np_len x) (\<lambda>n. np_reshape_infer x n))"

subsection \<open>The parameterized operator\<close>

text \<open>
  The object state of \<open>Linear\<close>: the two dictionaries of its base class \<open>model.Model\<close>,
  keyed by parameter name.
\<close>

record 'a Linear =
  params :: "string \<rightharpoonup> 'a ndarray"
  grads :: "string \<rightharpoonup> 'a ndarray"

text \<open>
  Modelled from the spec: \<open>model.Model\<close> is not among the sources. Its \<open>zerograds\<close> resets
  every gradient accumulator to zero, and the accumulators have the shapes of the
  parameters they belong to (one for \<open>W\<close>, one for \<open>b\<close> if present).
\<close>

definition zerograds :: "'a::semiring_0 Linear \<Rightarrow> 'a Linear" where
  "zerograds self = self\<lparr>grads := (\<lambda>k. map_option np_zeros_like (params self k))\<rparr>"

text \<open>
  \<open>Linear.__init__\<close>. The argument \<open>normal\<close> stands for the draws of
  \<open>numpy.random.normal(0, wscale * math.sqrt(1. / in_size), (out_size, in_size))\<close>, in
  row-major order, for a \<open>wscale\<close> that is not negative, so \<open>wscale\<close> itself is not an
  argument; \<open>1. / in_size\<close> raises for \<open>in_size = 0\<close>. The two sizes are natural numbers.
  Each \<open>assert\<close> is an AssertionError. The accumulators start at zero, as the spec says
  of construction.
\<close>

definition Linear_init ::
  "nat \<Rightarrow> nat \<Rightarrow> (nat \<Rightarrow> 'a) \<Rightarrow> 'a \<Rightarrow> bool \<Rightarrow> 'a ndarray option \<Rightarrow> 'a ndarray option
     \<Rightarrow> error + ('a::semiring_0) Linear" where
  "Linear_init in_size out_size normal bias nobias initialW initial_bias =
     ebind
       (case initialW of
          Some w \<Rightarrow> if shape w = [out_size, in_size] then Inr w else Inl AssertionError
        | None \<Rightarrow>
            if in_size = 0 then Inl ZeroDivisionError
            else Inr \<lparr>dtype = Float32, shape = [out_size, in_size],
                      data = map normal [0..<out_size * in_size]\<rparr>)
       (\<lambda>W.
          ebind
            (case initial_bias of
               Some b \<Rightarrow>
                 if shape b = [out_size] then Inr [''W'' \<mapsto> W, ''b'' \<mapsto> b]
                 else Inl AssertionError
             | None \<Rightarrow>
                 if \<not> nobias then Inr [''W'' \<mapsto> W, ''b'' \<mapsto> np_repeat bias out_size]
                 else Inr [''W'' \<mapsto> W])
            (\<lambda>ps. Inr (zerograds \<lparr>params = ps, grads = Map.empty\<rparr>)))"

text \<open>
  \<open>Linear.check_type_forward\<close>. The input types are the dtypes and shapes of the input
  arrays. \<open>W.shape[1]\<close> is read before the three expectations are checked; they are
  checked in order, and the first that fails raises \<open>InvalidType\<close>.
\<close>

definition Linear_check_type_forward :: "'a Linear \<Rightarrow> 'a ndarray list \<Rightarrow> error + unit" where
  "Linear_check_type_forward self in_types =
     (if length in_types = 1 then
        (let x_type = in_types ! 0 in
         ebind (lookup (params self) ''W'') (\<lambda>W.
         ebind (item (shape W) 1) (\<lambda>W_shape_1.
           if dtype x_type = Float32 then
             (if 2 \<le> ndim x_type then
                (if prod_list (drop 1 (shape x_type)) = W_shape_1 then Inr ()
                 else Inl InvalidType)
              else Inl InvalidType)
           else Inl InvalidType)))
      else Inl InvalidType)"

text \<open>\<open>Linear.forward\<close>\<close>

definition Linear_forward :: "'a::semiring_0 Linear \<Rightarrow> 'a ndarray list \<Rightarrow> error + 'a ndarray list" where
  "Linear_forward self x =
     ebind (item x 0) (\<lambda>x0.
     ebind (as_mat x0) (\<lambda>xm.
     ebind (lookup (params self) ''W'') (\<lambda>W.
     ebind (np_dot xm (np_T W)) (\<lambda>Wx.
       case params self ''b'' of
         None \<Rightarrow> Inr [Wx]
       | Some b \<Rightarrow> ebind (np_iadd Wx b) (\<lambda>Wx'. Inr [Wx'])))))"

text \<open>
  \<open>Linear.backward\<close>: the gradient with respect to the input, and the object with its
  accumulators updated.
\<close>

definition Linear_backward ::
  "'a::semiring_0 Linear \<Rightarrow> 'a ndarray list \<Rightarrow> 'a ndarray list
     \<Rightarrow> error + ('a ndarray list \<times> 'a Linear)" where
  "Linear_backward self x gy =
     ebind (item x 0) (\<lambda>x0.
     ebind (as_mat x0) (\<lambda>xm.
     ebind (lookup (grads self) ''W'') (\<lambda>gW.
     ebind (item gy 0) (\<lambda>gy0.
     ebind (np_dot (np_T gy0) xm) (\<lambda>dW.
     ebind (np_iadd gW dW) (\<lambda>gW'.
     ebind (case grads self ''b'' of
              None \<Rightarrow> Inr ((grads self)(''W'' \<mapsto> gW'))
            | Some gb \<Rightarrow>
                ebind (np_sum0 gy0) (\<lambda>db.
                ebind (np_iadd gb db) (\<lambda>gb'.
                  Inr ((grads self)(''W'' \<mapsto> gW', ''b'' \<mapsto> gb'))))) (\<lambda>grads'.
     ebind (lookup (params self) ''W'') (\<lambda>W.
     ebind (np_dot gy0 W) (\<lambda>gx.
     ebind (np_reshape gx (shape x0)) (\<lambda>gx'.
       Inr ([gx'], self\<lparr>grads := grads'\<rparr>)))))))))))"

text \<open>
  Modelled from the spec: \<open>function.Function\<close> is not among the sources. A call of an
  operator validates the input types first and runs forward only when no expectation
  failed.
\<close>

definition Linear_call :: "'a::semiring_0 Linear \<Rightarrow> 'a ndarray list \<Rightarrow> error + 'a ndarray list" where
  "Linear_call self x = ebind (Linear_check_type_forward self x) (\<lambda>_. Linear_forward self x)"

subsection \<open>The nonparameterized operator\<close>

text \<open>The one attribute of a \<open>NonparameterizedLinear\<close> object: \<open>func\<close>, unset until forward.\<close>

record 'a NonparameterizedLinear =
  func :: "'a Linear option"

definition NonparameterizedLinear_new :: "'a NonparameterizedLinear" where
  "NonparameterizedLinear_new = \<lparr>func = None\<rparr>"

text \<open>\<open>NonparameterizedLinear.check_type_forward\<close>\<close>

definition NonparameterizedLinear_check_type_forward :: "'a ndarray list \<Rightarrow> error + unit" where
  "NonparameterizedLinear_check_type_forward in_types =
     (if 2 \<le> length in_types \<and> length in_types \<le> 3 then
        (let x_type = in_types ! 0; w_type = in_types ! 1 in
         if dtype x_type = Float32 \<and> dtype w_type = Float32 \<and> 2 \<le> ndim x_type \<and>
            ndim w_type = 2 \<and> prod_list (drop 1 (shape x_type)) = shape w_type ! 1
         then
           (if length in_types = 3 then
              (let b_type = in_types ! 2 in
               if ndim b_type = 1 \<and> shape b_type ! 0 = shape w_type ! 0 then Inr ()
               else Inl InvalidType)
            else Inr ())
         else Inl InvalidType)
      else Inl InvalidType)"

text \<open>
  \<open>NonparameterizedLinear.forward\<close>. Unpacking \<open>W.shape\<close> into two names is a ValueError
  unless \<open>W\<close> is a matrix. The constructor's defaults are \<open>bias = 0\<close> and random weights,
  which \<open>initialW\<close> overrides. All arrays are host arrays: \<open>to_gpu\<close> is never taken.
\<close>

definition NonparameterizedLinear_forward ::
  "'a::semiring_0 NonparameterizedLinear \<Rightarrow> 'a ndarray list
     \<Rightarrow> error + ('a ndarray list \<times> 'a NonparameterizedLinear)" where
  "NonparameterizedLinear_forward self x =
     ebind (item x 1) (\<lambda>W.
       if length (shape W) = 2 then
         (let out_size = shape W ! 0; in_size = shape W ! 1 in
          ebind (if length x = 3
                 then Linear_init in_size out_size (\<lambda>_. 0) 0 False (Some W) (Some (x ! 2))
                 else Linear_init in_size out_size (\<lambda>_. 0) 0 True (Some W) None) (\<lambda>f.
          ebind (Linear_forward f (take 1 x)) (\<lambda>y.
            Inr (y, self\<lparr>func := Some f\<rparr>))))
       else Inl ValueError)"

text \<open>\<open>NonparameterizedLinear.backward\<close>; reading \<open>self.func\<close> before any forward is an AttributeError.\<close>

definition NonparameterizedLinear_backward ::
  "'a::semiring_0 NonparameterizedLinear \<Rightarrow> 'a ndarray list \<Rightarrow> 'a ndarray list
     \<Rightarrow> error + ('a ndarray list \<times> 'a NonparameterizedLinear)" where
  "NonparameterizedLinear_backward self x gy =
     (case func self of
        None \<Rightarrow> Inl AttributeError
      | Some f \<Rightarrow>
          ebind (Linear_backward (zerograds f) (take 1 x) gy) (\<lambda>(gx, f').
          ebind (item gx 0) (\<lambda>gx0.
            case grads f' ''b'' of
              None \<Rightarrow> ebind (lookup (grads f') ''W'') (\<lambda>gW.
                        Inr ([gx0, gW], self\<lparr>func := Some f'\<rparr>))
            | Some gb \<Rightarrow> ebind (lookup (grads f') ''W'') (\<lambda>gW.
                        Inr ([gx0, gW, gb], self\<lparr>func := Some f'\<rparr>)))))"

text \<open>
  Modelled from the spec: the call of a nonparameterized operator, validation first
  (\<open>function.Function\<close> is not among the sources).
\<close>

definition NonparameterizedLinear_call ::
  "'a::semiring_0 NonparameterizedLinear \<Rightarrow> 'a ndarray list
     \<Rightarrow> error + ('a ndarray list \<times> 'a NonparameterizedLinear)" where
  "NonparameterizedLinear_call self x =
     ebind (NonparameterizedLinear_check_type_forward x)
       (\<lambda>_. NonparameterizedLinear_forward self x)"

text \<open>
  The function \<open>linear\<close>, here \<open>linear_fn\<close> since the library has a constant \<open>linear\<close>
  of its own: the output of the call, together with the operator object that the
  computation graph keeps for the backward pass.
\<close>

definition linear_fn ::
  "'a::semiring_0 ndarray \<Rightarrow> 'a ndarray \<Rightarrow> 'a ndarray option
     \<Rightarrow> error + ('a ndarray list \<times> 'a NonparameterizedLinear)" where
  "linear_fn x W b =
     (case b of
        None \<Rightarrow> NonparameterizedLinear_call NonparameterizedLinear_new [x, W]
      | Some b' \<Rightarrow> NonparameterizedLinear_call NonparameterizedLinear_new [x, W, b'])"

section \<open>Valid inputs and the shape invariant\<close>

text \<open>
  A valid input of the parameterized operator is what \<open>Linear.check_type_forward\<close>
  expects: float32, at least two axes, and \<open>in_size\<close> elements per sample once the axes
  after the first are flattened; \<open>batch\<close> names the length of its first axis. A valid
  upstream gradient is a float32 matrix with one row per sample.
\<close>

definition valid_input :: "'a ndarray \<Rightarrow> nat \<Rightarrow> nat \<Rightarrow> bool" where
  "valid_input x batch in_size =
     (dtype x = Float32 \<and> 2 \<le> ndim x \<and> shape x ! 0 = batch \<and>
      prod_list (drop 1 (shape x)) = in_size)"

definition valid_grad :: "'a ndarray \<Rightarrow> nat \<Rightarrow> nat \<Rightarrow> bool" where
  "valid_grad gy batch out_size = (dtype gy = Float32 \<and> shape gy = [batch, out_size])"

text \<open>
  The parameters of an operator for \<open>in_size\<close> inputs and \<open>out_size\<close> outputs: a float32
  weight matrix and, if there is a bias, a float32 bias vector.
\<close>

definition params_ok :: "'a Linear \<Rightarrow> nat \<Rightarrow> nat \<Rightarrow> bool" where
  "params_ok self in_size out_size =
     ((case params self ''W'' of
         None \<Rightarrow> False
       | Some W \<Rightarrow> dtype W = Float32 \<and> shape W = [out_size, in_size]) \<and>
      (case params self ''b'' of
         None \<Rightarrow> True
       | Some b \<Rightarrow> dtype b = Float32 \<and> shape b = [out_size]))"

text \<open>Every accumulator belongs to a parameter and has its shape and dtype.\<close>

definition grads_ok :: "'a Linear \<Rightarrow> bool" where
  "grads_ok self =
     ((case (grads self ''W'', params self ''W'') of
         (Some g, Some W) \<Rightarrow> dtype g = dtype W \<and> shape g = shape W
       | _ \<Rightarrow> False) \<and>
      (case (grads self ''b'', params self ''b'') of
         (None, None) \<Rightarrow> True
       | (Some g, Some b) \<Rightarrow> dtype g = dtype b \<and> shape g = shape b
       | _ \<Rightarrow> False))"

text \<open>
  The three gradients of the spec, entry by entry at a flat row-major position: \<open>gy\<^sup>T \<cdot> X\<close>
  (shape \<open>(out_size, in_size)\<close>), the column sum of \<open>gy\<close> (shape \<open>(out_size,)\<close>) and
  \<open>gy \<cdot> W\<close> (shape \<open>(batch, in_size)\<close>).
\<close>

definition grad_W_entry :: "'a::semiring_0 ndarray \<Rightarrow> 'a ndarray \<Rightarrow> nat \<Rightarrow> nat \<Rightarrow> nat \<Rightarrow> nat \<Rightarrow> 'a" where
  "grad_W_entry gy x batch in_size out_size k =
     (\<Sum>i<batch. data gy ! (i * out_size + k div in_size) * data x ! (i * in_size + k mod in_size))"

definition grad_b_entry :: "'a::semiring_0 ndarray \<Rightarrow> nat \<Rightarrow> nat \<Rightarrow> nat \<Rightarrow> 'a" where
  "grad_b_entry gy batch out_size j = (\<Sum>i<batch. data gy ! (i * out_size + j))"

definition grad_x_entry :: "'a::semiring_0 ndarray \<Rightarrow> 'a ndarray \<Rightarrow> nat \<Rightarrow> nat \<Rightarrow> nat \<Rightarrow> 'a" where
  "grad_x_entry gy W in_size out_size p =
     (\<Sum>j<out_size. data gy ! ((p div in_size) * out_size + j) * data W ! (j * in_size + p mod in_size))"

section \<open>Facts about the array operations\<close>

lemma ebind_Inl [simp]: "ebind (Inl e) f = Inl e"
  by (simp add: ebind_def)

lemma ebind_Inr [simp]: "ebind (Inr v) f = f v"
  by (simp add: ebind_def)

lemma item_0 [simp]: "item (x # xs) 0 = Inr x"
  by (simp add: item_def)

lemma lookup_Some: "m k = Some v \<Longrightarrow> lookup m k = Inr v"
  by (simp add: lookup_def)

lemmas np_defs = as_mat_def np_len_def np_reshape_infer_def np_reshape_def np_T_def np_dot_def
  np_sum0_def np_iadd_def np_repeat_def np_zeros_like_def broadcastable_def bcast_index_def
  result_type_def ndim_def size_of_def item_def lookup_def zerograds_def

lemma flat_index_bound: "i < m \<Longrightarrow> j < n \<Longrightarrow> i * n + j < m * (n::nat)"
proof -
  assume a: "i < m" "j < n"
  then have "i * n + j < i * n + n" by simp
  also have "\<dots> = Suc i * n" by simp
  also from a have "\<dots> \<le> m * n" by (intro mult_le_mono1) simp
  finally show ?thesis .
qed

lemma mod_less_of_bound: "p < m * n \<Longrightarrow> p mod n < (n::nat)"
  by (cases "n = 0") simp_all

lemma div_less_of_bound: "p < m * n \<Longrightarrow> p div n < (m::nat)"
  by (simp add: less_mult_imp_div_less)

lemma sum_list_upt_sum: "sum_list (map f [0..<n]) = (\<Sum>l<n. f l)"
  by (simp add: interv_sum_list_conv_sum_set_nat atLeast0LessThan)

text \<open>The transpose of a matrix, position by position.\<close>

lemma T_matrix:
  assumes "shape a = [m, n]"
  shows "np_T a = \<lparr>dtype = dtype a, shape = [n, m],
            data = map (\<lambda>k. data a ! ((k mod m) * n + (k div m) mod n)) [0..<m * n]\<rparr>"
  using assms by (simp add: np_T_def size_of_def)

lemma T_matrix_nth:
  assumes "shape a = [m, n]" "i < m" "j < n"
  shows "data (np_T a) ! (j * m + i) = data a ! (i * n + j)"
proof -
  have "j * m + i < n * m" using assms by (simp add: flat_index_bound)
  then have "j * m + i < m * n" by (simp add: mult.commute)
  then show ?thesis using assms by (simp add: T_matrix)
qed

lemma T_matrix_shape: "shape a = [m, n] \<Longrightarrow> shape (np_T a) = [n, m]"
  by (simp add: np_T_def)

lemma T_dtype [simp]: "dtype (np_T a) = dtype a"
  by (simp add: np_T_def)

text \<open>Broadcasting in the three cases that valid inputs reach.\<close>

lemma bcast_same_matrix:
  assumes "k < m * n"
  shows "bcast_index [m, n] [m, n] k = k"
proof -
  have lt: "k div n < m" using assms by (simp add: less_mult_imp_div_less)
  have a: "(if m = 1 then 0 else (k div n) mod m) = k div n" using lt by auto
  have b: "(if n = 1 then 0 else k mod n) = k mod n" by auto
  have "bcast_index [m, n] [m, n] k =
      (if m = 1 then 0 else (k div n) mod m) * n + (if n = 1 then 0 else k mod n)"
    by (simp add: bcast_index_def)
  also have "\<dots> = k div n * n + k mod n" by (simp only: a b)
  also have "\<dots> = k" by simp
  finally show ?thesis .
qed

lemma bcast_row: "bcast_index [m, n] [n] k = k mod n"
  by (simp add: bcast_index_def)

lemma bcast_same_vector: "k < n \<Longrightarrow> bcast_index [n] [n] k = k"
  by (simp add: bcast_index_def)

lemma iadd_same_matrix:
  assumes "shape a = [m, n]" "shape b = [m, n]" "is_float (dtype a)"
  shows "np_iadd a b = Inr (a\<lparr>data := map (\<lambda>k. data a ! k + data b ! k) [0..<m * n]\<rparr>)"
  using assms by (simp add: np_iadd_def broadcastable_def size_of_def bcast_same_matrix)

lemma iadd_same_vector:
  assumes "shape a = [n]" "shape b = [n]" "is_float (dtype a)"
  shows "np_iadd a b = Inr (a\<lparr>data := map (\<lambda>k. data a ! k + data b ! k) [0..<n]\<rparr>)"
  using assms by (simp add: np_iadd_def broadcastable_def size_of_def bcast_same_vector)

lemma iadd_row:
  assumes "shape a = [m, n]" "shape b = [n]" "is_float (dtype a)"
  shows "np_iadd a b = Inr (a\<lparr>data := map (\<lambda>k. data a ! k + data b ! (k mod n)) [0..<m * n]\<rparr>)"
  using assms by (simp add: np_iadd_def broadcastable_def size_of_def bcast_row)

text \<open>The three matrix products of linear.py and the column sum.\<close>

lemma dot_matrix:
  assumes "shape a = [m, k]" "shape b = [k, n]"
  shows "np_dot a b =
     Inr \<lparr>dtype = result_type (dtype a) (dtype b), shape = [m, n],
          data = map (\<lambda>p. sum_list (map (\<lambda>l. data a ! ((p div n) * k + l) *
                                             data b ! (l * n + p mod n)) [0..<k]))
                   [0..<m * n]\<rparr>"
  using assms by (simp add: np_dot_def ndim_def)

lemma x_dot_WT:
  assumes W: "shape W = [O', I]" and x: "shape xm = [B, I]"
  shows "np_dot xm (np_T W) =
     Inr \<lparr>dtype = result_type (dtype xm) (dtype W), shape = [B, O'],
          data = map (\<lambda>p. \<Sum>l<I. data xm ! ((p div O') * I + l) * data W ! ((p mod O') * I + l))
                   [0..<B * O']\<rparr>"
proof -
  have "sum_list (map (\<lambda>l. data xm ! ((p div O') * I + l) *
                           data (np_T W) ! (l * O' + p mod O')) [0..<I]) =
        (\<Sum>l<I. data xm ! ((p div O') * I + l) * data W ! ((p mod O') * I + l))"
    if "p < B * O'" for p
  proof -
    from that have j: "p mod O' < O'" by (rule mod_less_of_bound)
    have "data (np_T W) ! (l * O' + p mod O') = data W ! ((p mod O') * I + l)" if "l < I" for l
      using W j that by (rule T_matrix_nth)
    then show ?thesis
      by (simp add: sum_list_upt_sum)
  qed
  then show ?thesis
    using x T_matrix_shape [OF W] by (simp add: dot_matrix)
qed

lemma gyT_dot_x:
  assumes gy: "shape gy = [B, O']" and x: "shape xm = [B, I]"
  shows "np_dot (np_T gy) xm =
     Inr \<lparr>dtype = result_type (dtype gy) (dtype xm), shape = [O', I],
          data = map (\<lambda>p. \<Sum>i<B. data gy ! (i * O' + p div I) * data xm ! (i * I + p mod I))
                   [0..<O' * I]\<rparr>"
proof -
  have "sum_list (map (\<lambda>i. data (np_T gy) ! ((p div I) * B + i) *
                           data xm ! (i * I + p mod I)) [0..<B]) =
        (\<Sum>i<B. data gy ! (i * O' + p div I) * data xm ! (i * I + p mod I))"
    if "p < O' * I" for p
  proof -
    from that have j: "p div I < O'" by (rule div_less_of_bound)
    have "data (np_T gy) ! ((p div I) * B + i) = data gy ! (i * O' + p div I)" if "i < B" for i
      using gy that j by (rule T_matrix_nth)
    then show ?thesis
      by (simp add: sum_list_upt_sum)
  qed
  then show ?thesis
    using x T_matrix_shape [OF gy] by (simp add: dot_matrix)
qed

lemma gy_dot_W:
  assumes gy: "shape gy = [B, O']" and W: "shape W = [O', I]"
  shows "np_dot gy W =
     Inr \<lparr>dtype = result_type (dtype gy) (dtype W), shape = [B, I],
          data = map (\<lambda>p. \<Sum>j<O'. data gy ! ((p div I) * O' + j) * data W ! (j * I + p mod I))
                   [0..<B * I]\<rparr>"
  using assms by (simp add: dot_matrix sum_list_upt_sum)

lemma sum0_matrix:
  assumes "shape gy = [B, O']"
  shows "np_sum0 gy =
     Inr \<lparr>dtype = (if dtype gy = Int32 then Int64 else dtype gy), shape = [O'],
          data = map (\<lambda>j. \<Sum>i<B. data gy ! (i * O' + j)) [0..<O']\<rparr>"
  using assms by (simp add: np_sum0_def sum_list_upt_sum)

section \<open>Flattening\<close>

lemma valid_input_shape:
  assumes "valid_input x B I"
  obtains rest where "shape x = B # rest" "prod_list rest = I" "rest \<noteq> []"
proof -
  from assms have r: "2 \<le> length (shape x)" and h: "shape x ! 0 = B"
    and p: "prod_list (drop 1 (shape x)) = I"
    by (simp_all add: valid_input_def ndim_def)
  from r obtain s0 rest where s: "shape x = s0 # rest" by (cases "shape x") auto
  with r h p have "shape x = B # rest" "prod_list rest = I" "rest \<noteq> []" by auto
  then show thesis by (rule that)
qed

text \<open>
  \<open>_as_mat\<close> returns on a valid input when the batch is not empty or the input is a
  matrix already; on an empty batch of more than two axes, \<open>reshape(0, -1)\<close> raises.
\<close>

lemma as_mat_valid:
  assumes x: "valid_input x B I" and pos: "0 < B \<or> ndim x = 2"
  shows "as_mat x = Inr (x\<lparr>shape := [B, I]\<rparr>)"
proof -
  from x obtain rest where s: "shape x = B # rest" and p: "prod_list rest = I"
    and ne: "rest \<noteq> []"
    by (rule valid_input_shape)
  show ?thesis
  proof (cases "ndim x = 2")
    case True
    with s p have "shape x = [B, I]" by (cases rest) (auto simp: ndim_def)
    then have "x\<lparr>shape := [B, I]\<rparr> = x" by (cases x) simp
    with True show ?thesis by (simp add: as_mat_def)
  next
    case False
    have sz: "size_of x = B * I" using s p by (simp add: size_of_def)
    from False s pos sz show ?thesis
      by (simp add: as_mat_def np_len_def np_reshape_infer_def)
  qed
qed

section \<open>The forward pass on valid inputs\<close>

lemma Linear_forward_value:
  assumes W: "params self ''W'' = Some W" "shape W = [O', I]"
    and x: "valid_input x B I"
    and nb: "0 < B \<or> ndim x = 2"
  shows "Linear_forward self [x] =
     (case params self ''b'' of
        None \<Rightarrow>
          Inr [\<lparr>dtype = result_type (dtype x) (dtype W), shape = [B, O'],
                data = map (\<lambda>p. \<Sum>l<I. data x ! ((p div O') * I + l) *
                                         data W ! ((p mod O') * I + l)) [0..<B * O']\<rparr>]
      | Some b \<Rightarrow>
          ebind (np_iadd
             \<lparr>dtype = result_type (dtype x) (dtype W), shape = [B, O'],
              data = map (\<lambda>p. \<Sum>l<I. data x ! ((p div O') * I + l) *
                                       data W ! ((p mod O') * I + l)) [0..<B * O']\<rparr> b)
            (\<lambda>Wx'. Inr [Wx']))"
proof -
  have "np_dot (x\<lparr>shape := [B, I]\<rparr>) (np_T W) =
     Inr \<lparr>dtype = result_type (dtype x) (dtype W), shape = [B, O'],
          data = map (\<lambda>p. \<Sum>l<I. data x ! ((p div O') * I + l) *
                                   data W ! ((p mod O') * I + l)) [0..<B * O']\<rparr>"
    using x_dot_WT [OF W(2), of "x\<lparr>shape := [B, I]\<rparr>" B] by simp
  then show ?thesis
    using W(1) as_mat_valid [OF x nb]
    by (simp add: Linear_forward_def lookup_Some split: option.split)
qed

lemma float_result_type: "is_float (result_type Float32 t)"
  by (cases t) (simp_all add: result_type_def)

lemma Linear_forward_bias_value:
  assumes W: "params self ''W'' = Some W" "shape W = [O', I]"
    and x: "valid_input x B I"
    and nb: "0 < B \<or> ndim x = 2"
    and b: "params self ''b'' = Some b" "shape b = [O']"
  shows "Linear_forward self [x] =
     Inr [\<lparr>dtype = result_type (dtype x) (dtype W), shape = [B, O'],
           data = map (\<lambda>p. (\<Sum>l<I. data x ! ((p div O') * I + l) *
                                     data W ! ((p mod O') * I + l)) + data b ! (p mod O'))
                    [0..<B * O']\<rparr>]"
proof -
  from x have "dtype x = Float32" by (simp add: valid_input_def)
  then have "is_float (result_type (dtype x) (dtype W))" by (simp add: float_result_type)
  then show ?thesis
    using Linear_forward_value [OF W x nb] b by (simp add: iadd_row)
qed

lemma Linear_forward_total:
  assumes ok: "params_ok self in_size out_size" and x: "valid_input x batch in_size"
    and nb: "0 < batch \<or> ndim x = 2"
  shows "\<exists>y. Linear_forward self [x] = Inr [y]"
proof -
  from ok obtain W where W: "params self ''W'' = Some W" "shape W = [out_size, in_size]"
    by (auto simp: params_ok_def split: option.splits)
  show ?thesis
  proof (cases "params self ''b''")
    case None
    then show ?thesis using Linear_forward_value [OF W x nb] by simp
  next
    case (Some b)
    with ok have "shape b = [out_size]" by (simp add: params_ok_def)
    from Linear_forward_bias_value [OF W x nb Some this] show ?thesis by simp
  qed
qed

lemma Linear_forward_flat:
  assumes "0 < batch" "shape x = batch # rest" "rest \<noteq> []"
  shows "Linear_forward self [x] = Linear_forward self [x\<lparr>shape := [batch, prod_list rest]\<rparr>]"
proof -
  let ?x' = "x\<lparr>shape := [batch, prod_list rest]\<rparr>"
  have "as_mat x = Inr ?x'"
  proof (cases "ndim x = 2")
    case True
    with assms have "shape x = [batch, prod_list rest]" by (cases rest) (auto simp: ndim_def)
    then have "?x' = x" by (cases x) simp
    with True show ?thesis by (simp add: as_mat_def)
  next
    case False
    with assms show ?thesis
      by (simp add: as_mat_def np_len_def np_reshape_infer_def size_of_def)
  qed
  moreover have "as_mat ?x' = Inr ?x'" by (simp add: as_mat_def ndim_def)
  ultimately show ?thesis by (simp add: Linear_forward_def)
qed

section \<open>The backward pass on valid inputs\<close>

lemma ebind_Inr_iff:
  "ebind m f = Inr r \<longleftrightarrow> (\<exists>v. m = Inr v \<and> f v = Inr r)"
  by (cases m) simp_all

lemma ebind_Inl_iff:
  "ebind m f = Inl e \<longleftrightarrow> m = Inl e \<or> (\<exists>v. m = Inr v \<and> f v = Inl e)"
  by (cases m) simp_all

lemma zerograds_params [simp]: "params (zerograds self) = params self"
  by (simp add: zerograds_def)

lemma zerograds_grads [simp]: "grads (zerograds self) k = map_option np_zeros_like (params self k)"
  by (simp add: zerograds_def)

lemma zeros_like_simps [simp]:
  "shape (np_zeros_like a) = shape a"
  "dtype (np_zeros_like a) = dtype a"
  "data (np_zeros_like a) = replicate (prod_list (shape a)) 0"
  by (simp_all add: np_zeros_like_def size_of_def)



lemma Linear_backward_value:
  assumes W: "params self ''W'' = Some W" "shape W = [O', I]"
    and gW: "grads self ''W'' = Some gW" "shape gW = [O', I]" "is_float (dtype gW)"
    and x: "valid_input x B I"
    and nb: "0 < B \<or> ndim x = 2"
    and gy: "shape gy = [B, O']"
    and gb: "case grads self ''b'' of None \<Rightarrow> True
             | Some gb \<Rightarrow> shape gb = [O'] \<and> is_float (dtype gb)"
  shows "Linear_backward self [x] [gy] =
     Inr ([\<lparr>dtype = result_type (dtype gy) (dtype W), shape = shape x,
            data = map (grad_x_entry gy W I O') [0..<B * I]\<rparr>],
          self\<lparr>grads :=
            (case grads self ''b'' of
               None \<Rightarrow>
                 (grads self)(''W'' \<mapsto>
                    gW\<lparr>data := map (\<lambda>k. data gW ! k + grad_W_entry gy x B I O' k) [0..<O' * I]\<rparr>)
             | Some gb \<Rightarrow>
                 (grads self)(''W'' \<mapsto>
                    gW\<lparr>data := map (\<lambda>k. data gW ! k + grad_W_entry gy x B I O' k) [0..<O' * I]\<rparr>,
                  ''b'' \<mapsto>
                    gb\<lparr>data := map (\<lambda>j. data gb ! j + grad_b_entry gy B O' j) [0..<O']\<rparr>))\<rparr>)"
proof -
  from x obtain rest where s: "shape x = B # rest" and p: "prod_list rest = I"
    by (rule valid_input_shape)
  have dW: "np_dot (np_T gy) (x\<lparr>shape := [B, I]\<rparr>) =
     Inr \<lparr>dtype = result_type (dtype gy) (dtype x), shape = [O', I],
          data = map (grad_W_entry gy x B I O') [0..<O' * I]\<rparr>"
    using gyT_dot_x [OF gy, of "x\<lparr>shape := [B, I]\<rparr>" I] by (simp add: grad_W_entry_def)
  have acc: "np_iadd gW
      \<lparr>dtype = result_type (dtype gy) (dtype x), shape = [O', I],
       data = map (grad_W_entry gy x B I O') [0..<O' * I]\<rparr> =
     Inr (gW\<lparr>data := map (\<lambda>k. data gW ! k + grad_W_entry gy x B I O' k) [0..<O' * I]\<rparr>)"
    using gW(2,3) by (simp add: iadd_same_matrix)
  have db: "np_sum0 gy =
     Inr \<lparr>dtype = (if dtype gy = Int32 then Int64 else dtype gy), shape = [O'],
          data = map (grad_b_entry gy B O') [0..<O']\<rparr>"
    using sum0_matrix [OF gy] by (simp add: grad_b_entry_def)
  have accb: "np_iadd gb
      \<lparr>dtype = (if dtype gy = Int32 then Int64 else dtype gy), shape = [O'],
       data = map (grad_b_entry gy B O') [0..<O']\<rparr> =
     Inr (gb\<lparr>data := map (\<lambda>j. data gb ! j + grad_b_entry gy B O' j) [0..<O']\<rparr>)"
    if "shape gb = [O']" "is_float (dtype gb)" for gb :: "'a ndarray"
    using that by (simp add: iadd_same_vector)
  have gyW: "np_dot gy W =
     Inr \<lparr>dtype = result_type (dtype gy) (dtype W), shape = [B, I],
          data = map (grad_x_entry gy W I O') [0..<B * I]\<rparr>"
    using gy_dot_W [OF gy W(2)] by (simp add: grad_x_entry_def)
  have gx: "np_reshape
      \<lparr>dtype = result_type (dtype gy) (dtype W), shape = [B, I],
       data = map (grad_x_entry gy W I O') [0..<B * I]\<rparr> (shape x) =
     Inr \<lparr>dtype = result_type (dtype gy) (dtype W), shape = shape x,
          data = map (grad_x_entry gy W I O') [0..<B * I]\<rparr>"
    using s p by (simp add: np_reshape_def size_of_def)
  show ?thesis
  proof (cases "grads self ''b''")
    case None
    then show ?thesis
      using W(1) gW(1) as_mat_valid [OF x nb] dW acc gx gyW
      by (simp add: Linear_backward_def lookup_Some)
  next
    case (Some gb)
    with gb have "shape gb = [O']" "is_float (dtype gb)" by simp_all
    then show ?thesis
      using Some W(1) gW(1) as_mat_valid [OF x nb] dW acc gx gyW db accb [of gb]
      by (simp add: Linear_backward_def lookup_Some)
  qed
qed

text \<open>
One backward call, seen through the two accumulators.
\<close>

lemma Linear_backward_step:
  assumes W: "params self ''W'' = Some W" "shape W = [O', I]"
    and gW: "grads self ''W'' = Some gW" "shape gW = [O', I]" "is_float (dtype gW)"
    and x: "valid_input x B I"
    and nb: "0 < B \<or> ndim x = 2"
    and gy: "shape gy = [B, O']"
    and gb: "case grads self ''b'' of None \<Rightarrow> True
             | Some gb \<Rightarrow> shape gb = [O'] \<and> is_float (dtype gb)"
  shows "\<exists>self'. Linear_backward self [x] [gy] =
            Inr ([\<lparr>dtype = result_type (dtype gy) (dtype W), shape = shape x,
                   data = map (grad_x_entry gy W I O') [0..<B * I]\<rparr>], self') \<and>
          params self' = params self \<and>
          grads self' ''W'' =
            Some (gW\<lparr>data := map (\<lambda>k. data gW ! k + grad_W_entry gy x B I O' k) [0..<O' * I]\<rparr>) \<and>
          grads self' ''b'' =
            map_option (\<lambda>gb. gb\<lparr>data := map (\<lambda>j. data gb ! j + grad_b_entry gy B O' j) [0..<O']\<rparr>)
              (grads self ''b'')"
  using Linear_backward_value [OF assms] by (cases "grads self ''b''") simp_all

lemma entry_at:
  "j < out_size \<Longrightarrow> l < in_size \<Longrightarrow>
   grad_W_entry gy x batch in_size out_size (j * in_size + l) =
     (\<Sum>i<batch. data gy ! (i * out_size + j) * data x ! (i * in_size + l))"
  "l < in_size \<Longrightarrow>
   grad_x_entry gy W in_size out_size (i * in_size + l) =
     (\<Sum>j<out_size. data gy ! (i * out_size + j) * data W ! (j * in_size + l))"
  by (simp_all add: grad_W_entry_def grad_x_entry_def)



text \<open>
Whatever the inputs, a backward call that returns gives one input gradient and leaves a
  weight accumulator; it neither creates nor removes the bias accumulator.
\<close>

lemma Linear_backward_result:
  assumes "Linear_backward f xs gys = Inr (gxs, f')"
  shows "\<exists>gx gW. gxs = [gx] \<and> grads f' ''W'' = Some gW \<and> params f' = params f \<and>
           (grads f' ''b'' = None \<longleftrightarrow> grads f ''b'' = None)"
  using assms
  by (auto simp: Linear_backward_def ebind_Inr_iff split: option.splits)

text \<open>
A backward call on a freshly zeroed operator.
\<close>

lemma Linear_backward_zeroed:
  assumes ok: "params_ok f in_size out_size"
    and W: "params f ''W'' = Some W"
    and x: "valid_input x batch in_size"
    and nb: "0 < batch \<or> ndim x = 2"
    and gy: "valid_grad gy batch out_size"
  shows "\<exists>gx f'. Linear_backward (zerograds f) [x] [gy] = Inr ([gx], f') \<and>
           params f' = params f \<and>
           shape gx = shape x \<and>
           data gx = map (grad_x_entry gy W in_size out_size) [0..<batch * in_size] \<and>
           grads f' ''W'' =
             Some (W\<lparr>data := map (grad_W_entry gy x batch in_size out_size) [0..<out_size * in_size]\<rparr>) \<and>
           grads f' ''b'' =
             map_option (\<lambda>b. b\<lparr>data := map (grad_b_entry gy batch out_size) [0..<out_size]\<rparr>)
               (params f ''b'')"
proof -
  from ok W have Ws: "shape W = [out_size, in_size]" and Wd: "dtype W = Float32"
    by (simp_all add: params_ok_def)
  from gy have gys: "shape gy = [batch, out_size]" by (simp add: valid_grad_def)
  let ?z = "zerograds f"
  have W0: "params ?z ''W'' = Some W" using W by simp
  have gW0: "grads ?z ''W'' = Some (np_zeros_like W)" using W by simp
  have gb0: "case grads ?z ''b'' of None \<Rightarrow> True
             | Some gb \<Rightarrow> shape gb = [out_size] \<and> is_float (dtype gb)"
    using ok by (auto simp: params_ok_def split: option.splits)
  have zW: "(np_zeros_like W)\<lparr>data := map (\<lambda>k. data (np_zeros_like W) ! k +
                 grad_W_entry gy x batch in_size out_size k) [0..<out_size * in_size]\<rparr> =
            W\<lparr>data := map (grad_W_entry gy x batch in_size out_size) [0..<out_size * in_size]\<rparr>"
    using Ws by (simp add: np_zeros_like_def size_of_def)
  have zb: "map_option (\<lambda>gb. gb\<lparr>data := map (\<lambda>j. data gb ! j + grad_b_entry gy batch out_size j)
                                           [0..<out_size]\<rparr>) (grads ?z ''b'') =
            map_option (\<lambda>b. b\<lparr>data := map (grad_b_entry gy batch out_size) [0..<out_size]\<rparr>)
              (params f ''b'')"
    using ok by (auto simp: params_ok_def np_zeros_like_def size_of_def split: option.splits)
  from Linear_backward_step [OF W0 Ws gW0 _ _ x nb gys gb0] Ws Wd zW zb
  show ?thesis by auto
qed

section \<open>Validation\<close>

text \<open>
The error \<open>InvalidType\<close> is raised by the validation only, never by forward.
\<close>

lemma item_not_InvalidType: "item xs i \<noteq> Inl InvalidType"
  by (simp add: item_def)

lemma lookup_not_InvalidType: "lookup m k \<noteq> Inl InvalidType"
  by (simp add: lookup_def split: option.split)

lemma as_mat_not_InvalidType: "as_mat x \<noteq> Inl InvalidType"
  by (simp add: as_mat_def np_len_def np_reshape_infer_def ebind_Inl_iff split: list.split)

lemma dot_not_InvalidType: "np_dot a b \<noteq> Inl InvalidType"
  by (simp add: np_dot_def Let_def)

lemma iadd_not_InvalidType: "np_iadd a b \<noteq> Inl InvalidType"
  by (simp add: np_iadd_def)

lemma Linear_forward_not_InvalidType: "Linear_forward self xs \<noteq> Inl InvalidType"
  by (simp add: Linear_forward_def ebind_Inl_iff item_not_InvalidType lookup_not_InvalidType
      as_mat_not_InvalidType dot_not_InvalidType iadd_not_InvalidType split: option.split)

lemma Linear_check_valid:
  assumes x: "valid_input x batch in_size" and W: "params f ''W'' = Some W" "shape W = [out_size, in_size]"
  shows "Linear_check_type_forward f [x] = Inr ()"
  using assms by (simp add: Linear_check_type_forward_def valid_input_def lookup_Some item_def)

lemma check_valid:
  assumes x: "valid_input x batch in_size" and W: "dtype W = Float32" "shape W = [out_size, in_size]"
  shows "NonparameterizedLinear_check_type_forward [x, W] = Inr ()"
    and "shape b = [out_size] \<Longrightarrow> NonparameterizedLinear_check_type_forward [x, W, b] = Inr ()"
  using assms by (simp_all add: NonparameterizedLinear_check_type_forward_def valid_input_def ndim_def)

section \<open>The nonparameterized operator on valid inputs\<close>

text \<open>
  A forward call of the nonparameterized operator that returns was given a batch of at
  least one sample, or a matrix.
\<close>

lemma as_mat_returns:
  assumes "as_mat x = Inr m" and "2 \<le> ndim x"
  shows "0 < shape x ! 0 \<or> ndim x = 2"
  using assms
  by (auto simp: as_mat_def np_len_def np_reshape_infer_def ndim_def ebind_Inr_iff
      split: if_splits list.splits)

lemma Linear_forward_returns:
  assumes "Linear_forward f (x # xs) = Inr y"
  shows "\<exists>m. as_mat x = Inr m"
  using assms by (simp add: Linear_forward_def ebind_Inr_iff) blast

lemma forward_returns_nonempty:
  assumes x: "valid_input x batch in_size"
    and r: "NonparameterizedLinear_forward op (x # W # bs) = Inr r"
  shows "0 < batch \<or> ndim x = 2"
proof -
  from r obtain f y where "Linear_forward f [x] = Inr y"
    by (auto simp: NonparameterizedLinear_forward_def ebind_Inr_iff item_def Let_def
        split: if_splits)
  then obtain m where "as_mat x = Inr m" using Linear_forward_returns by blast
  with x as_mat_returns [of x m] show ?thesis by (simp add: valid_input_def)
qed

lemma Linear_init_given:
  assumes "shape W = [out_size, in_size]"
  shows "Linear_init in_size out_size normal bias True (Some W) None =
           Inr (zerograds \<lparr>params = [''W'' \<mapsto> W], grads = Map.empty\<rparr>)"
    and "shape b = [out_size] \<Longrightarrow>
         Linear_init in_size out_size normal bias nobias (Some W) (Some b) =
           Inr (zerograds \<lparr>params = [''W'' \<mapsto> W, ''b'' \<mapsto> b], grads = Map.empty\<rparr>)"
  using assms by (simp_all add: Linear_init_def)

lemma NonparameterizedLinear_forward_value:
  assumes W: "shape W = [out_size, in_size]"
  shows "NonparameterizedLinear_forward op [x, W] =
           ebind (Linear_forward (zerograds \<lparr>params = [''W'' \<mapsto> W], grads = Map.empty\<rparr>) [x])
             (\<lambda>y. Inr (y, op\<lparr>func := Some (zerograds \<lparr>params = [''W'' \<mapsto> W], grads = Map.empty\<rparr>)\<rparr>))"
    and "shape b = [out_size] \<Longrightarrow>
         NonparameterizedLinear_forward op [x, W, b] =
           ebind (Linear_forward
                    (zerograds \<lparr>params = [''W'' \<mapsto> W, ''b'' \<mapsto> b], grads = Map.empty\<rparr>) [x])
             (\<lambda>y. Inr (y, op\<lparr>func := Some (zerograds
                                \<lparr>params = [''W'' \<mapsto> W, ''b'' \<mapsto> b], grads = Map.empty\<rparr>)\<rparr>))"
  using W
  by (simp_all add: NonparameterizedLinear_forward_def item_def Linear_init_given)

lemma NonparameterizedLinear_backward_value:
  assumes "func op = Some f"
  shows "NonparameterizedLinear_backward op xs gys =
     (case Linear_backward (zerograds f) (take 1 xs) gys of
        Inl e \<Rightarrow> Inl e
      | Inr (gxs, f') \<Rightarrow>
          Inr (hd gxs # the (grads f' ''W'') #
                 (case grads f' ''b'' of None \<Rightarrow> [] | Some gb \<Rightarrow> [gb]),
               op\<lparr>func := Some f'\<rparr>))"
proof (cases "Linear_backward (zerograds f) (take 1 xs) gys")
  case (Inl e)
  with assms show ?thesis by (simp add: NonparameterizedLinear_backward_def)
next
  case (Inr r)
  obtain gxs f' where r: "r = (gxs, f')" by (cases r)
  from Linear_backward_result [OF Inr [unfolded r]] obtain gx gW where
    "gxs = [gx]" "grads f' ''W'' = Some gW" by blast
  with assms Inr r show ?thesis
    by (simp add: NonparameterizedLinear_backward_def lookup_Some split: option.split)
qed


lemma NonparameterizedLinear_backward_refines:
  assumes f: "func op = Some f" and xs: "take 1 xs = [x]"
  shows "case Linear_backward (zerograds f) [x] gys of
           Inl e \<Rightarrow> NonparameterizedLinear_backward op xs gys = Inl e
         | Inr (gxs, f') \<Rightarrow>
             (\<exists>gW. grads f' ''W'' = Some gW \<and>
                NonparameterizedLinear_backward op xs gys =
                  Inr (gxs @ gW # (case grads f' ''b'' of None \<Rightarrow> [] | Some gb \<Rightarrow> [gb]),
                       op\<lparr>func := Some f'\<rparr>))"
proof (cases "Linear_backward (zerograds f) [x] gys")
  case (Inl e)
  then show ?thesis
    using NonparameterizedLinear_backward_value [OF f, of xs gys] xs by simp
next
  case (Inr r)
  obtain gxs f' where r: "r = (gxs, f')" by (cases r)
  from Linear_backward_result [OF Inr [unfolded r]] obtain gx gW where
    "gxs = [gx]" "grads f' ''W'' = Some gW" by (elim exE conjE) (rule that)
  then show ?thesis
    using NonparameterizedLinear_backward_value [OF f, of xs gys] xs Inr r by simp
qed

section \<open>The forward pass is the affine map\<close>

text \<open>
  C1. For a valid input \<open>x\<close> (float32, its axes after the first flattened to \<open>in_size\<close>)
  and an operator with a weight \<open>W\<close> of shape \<open>(out_size, in_size)\<close>, forward returns one
  array \<open>y\<close> of shape \<open>(batch, out_size)\<close>. Without a bias, the entry of row \<open>i\<close> and
  column \<open>j\<close> is the product of row \<open>i\<close> of \<open>x\<close> and row \<open>j\<close> of \<open>W\<close>; with a bias \<open>b\<close> of
  shape \<open>(out_size,)\<close>, it is that product plus \<open>b[j]\<close>, the same in every row of the batch.
  This holds for every batch size of at least 1.
\<close>

theorem C1_forward_affine:
  assumes W: "params self ''W'' = Some W" "shape W = [out_size, in_size]"
    and x: "valid_input x batch in_size"
    and nb: "0 < batch \<or> ndim x = 2"
    and b: "case params self ''b'' of None \<Rightarrow> True | Some b \<Rightarrow> shape b = [out_size]"
  shows "\<exists>y. Linear_forward self [x] = Inr [y] \<and> shape y = [batch, out_size] \<and>
           length (data y) = batch * out_size \<and>
           (\<forall>i<batch. \<forall>j<out_size.
              data y ! (i * out_size + j) =
                (case params self ''b'' of
                   None \<Rightarrow> (\<Sum>l<in_size. data x ! (i * in_size + l) * data W ! (j * in_size + l))
                 | Some b \<Rightarrow> (\<Sum>l<in_size. data x ! (i * in_size + l) * data W ! (j * in_size + l))
                              + data b ! j))"
proof (cases "params self ''b''")
  case None
  then show ?thesis
    using Linear_forward_value [OF W x nb] by (simp add: flat_index_bound)
next
  case (Some b')
  with b have "shape b' = [out_size]" by simp
  then show ?thesis
    using Linear_forward_bias_value [OF W x nb Some] Some by (simp add: flat_index_bound)
qed

text \<open>
  An instance: one sample \<open>[3, 4]\<close>, the weight \<open>[[1, 2]]\<close>, the bias \<open>[5]\<close>; the output is
  \<open>3 * 1 + 4 * 2 + 5 = 16\<close>.
\<close>

theorem C1_forward_affine_witness:
  "valid_input \<lparr>dtype = Float32, shape = [1, 2], data = [3, 4 :: int]\<rparr> 1 2 \<and>
   (\<exists>y. Linear_forward
          \<lparr>params = [''W'' \<mapsto> \<lparr>dtype = Float32, shape = [1, 2], data = [1, 2 :: int]\<rparr>,
                     ''b'' \<mapsto> \<lparr>dtype = Float32, shape = [1], data = [5]\<rparr>],
           grads = Map.empty\<rparr>
          [\<lparr>dtype = Float32, shape = [1, 2], data = [3, 4]\<rparr>] = Inr [y] \<and>
        shape y = [1, 1] \<and> data y ! 0 = 16)"
proof -
  let ?x = "\<lparr>dtype = Float32, shape = [1, 2], data = [3, 4 :: int]\<rparr>"
  let ?W = "\<lparr>dtype = Float32, shape = [1, 2], data = [1, 2 :: int]\<rparr>"
  let ?b = "\<lparr>dtype = Float32, shape = [1], data = [5 :: int]\<rparr>"
  let ?f = "\<lparr>params = [''W'' \<mapsto> ?W, ''b'' \<mapsto> ?b], grads = Map.empty\<rparr>"
  have v: "valid_input ?x 1 2" by (simp add: valid_input_def ndim_def)
  have nb: "0 < (1::nat) \<or> ndim ?x = 2" by simp
  have W: "params ?f ''W'' = Some ?W" "shape ?W = [1, 2]" by simp_all
  have b: "case params ?f ''b'' of None \<Rightarrow> True | Some b \<Rightarrow> shape b = [1]" by simp
  from C1_forward_affine [OF W v nb b] obtain y where
    y: "Linear_forward ?f [?x] = Inr [y]" "shape y = [1, 1]"
    and el: "\<forall>i<1. \<forall>j<1. data y ! (i * 1 + j) =
       (case params ?f ''b'' of
          None \<Rightarrow> (\<Sum>l<2. data ?x ! (i * 2 + l) * data ?W ! (j * 2 + l))
        | Some b \<Rightarrow> (\<Sum>l<2. data ?x ! (i * 2 + l) * data ?W ! (j * 2 + l)) + data b ! j)"
    by blast
  from el have "data y ! 0 = 16" by (simp add: lessThan_Suc numeral_2_eq_2)
  with v y show ?thesis by blast
qed

section \<open>The gradients of the backward pass\<close>

text \<open>
  For a valid input \<open>x\<close> (in its original shape) with at least one sample, or one that is
  a matrix already, and an upstream gradient \<open>gy\<close> of
  shape \<open>(batch, out_size)\<close>, backward adds \<open>gy\<^sup>T \<cdot> X\<close> (shape \<open>(out_size, in_size)\<close>, \<open>X\<close> the
  flattened input) into the accumulator of \<open>W\<close>, adds the column sums of \<open>gy\<close> (shape
  \<open>(out_size,)\<close>) into the accumulator of \<open>b\<close> when the operator has a bias, and returns
  \<open>gy \<cdot> W\<close> in the shape of \<open>x\<close>. The entries are read at row-major positions.
\<close>

lemma Linear_backward_gradients:
  assumes ok: "params_ok self in_size out_size" "grads_ok self"
    and W: "params self ''W'' = Some W"
    and gW: "grads self ''W'' = Some gW"
    and x: "valid_input x batch in_size"
    and nb: "0 < batch \<or> ndim x = 2"
    and gy: "valid_grad gy batch out_size"
  shows "\<exists>gx self'.
     Linear_backward self [x] [gy] = Inr ([gx], self') \<and>
     shape gx = shape x \<and>
     (\<forall>i<batch. \<forall>l<in_size.
        data gx ! (i * in_size + l) =
          (\<Sum>j<out_size. data gy ! (i * out_size + j) * data W ! (j * in_size + l))) \<and>
     (\<exists>gW'. grads self' ''W'' = Some gW' \<and> shape gW' = [out_size, in_size] \<and>
        (\<forall>j<out_size. \<forall>l<in_size.
           data gW' ! (j * in_size + l) =
             data gW ! (j * in_size + l) +
             (\<Sum>i<batch. data gy ! (i * out_size + j) * data x ! (i * in_size + l)))) \<and>
     (case params self ''b'' of
        None \<Rightarrow> grads self' ''b'' = None
      | Some b \<Rightarrow>
          (\<exists>gb gb'. grads self ''b'' = Some gb \<and> grads self' ''b'' = Some gb' \<and>
             shape gb' = [out_size] \<and>
             (\<forall>j<out_size.
                data gb' ! j = data gb ! j + (\<Sum>i<batch. data gy ! (i * out_size + j)))))"
proof -
  from ok(1) W have Ws: "shape W = [out_size, in_size]" and Wd: "dtype W = Float32"
    by (simp_all add: params_ok_def)
  from ok(2) W gW have gWs: "shape gW = [out_size, in_size]" and gWd: "is_float (dtype gW)"
    using Ws Wd by (simp_all add: grads_ok_def)
  from gy have gys: "shape gy = [batch, out_size]" by (simp add: valid_grad_def)
  have gb: "case grads self ''b'' of None \<Rightarrow> True
            | Some gb \<Rightarrow> shape gb = [out_size] \<and> is_float (dtype gb)"
    using ok by (auto simp: params_ok_def grads_ok_def split: option.splits)
  from Linear_backward_step [OF W Ws gW gWs gWd x nb gys gb] obtain self' where
    r: "Linear_backward self [x] [gy] =
          Inr ([\<lparr>dtype = result_type (dtype gy) (dtype W), shape = shape x,
                 data = map (grad_x_entry gy W in_size out_size) [0..<batch * in_size]\<rparr>], self')"
    and g1: "grads self' ''W'' =
          Some (gW\<lparr>data := map (\<lambda>k. data gW ! k + grad_W_entry gy x batch in_size out_size k)
                             [0..<out_size * in_size]\<rparr>)"
    and g2: "grads self' ''b'' =
          map_option (\<lambda>gb. gb\<lparr>data := map (\<lambda>j. data gb ! j + grad_b_entry gy batch out_size j)
                                          [0..<out_size]\<rparr>) (grads self ''b'')"
    by blast
  have b: "case params self ''b'' of
        None \<Rightarrow> grads self' ''b'' = None
      | Some b \<Rightarrow>
          (\<exists>gb gb'. grads self ''b'' = Some gb \<and> grads self' ''b'' = Some gb' \<and>
             shape gb' = [out_size] \<and>
             (\<forall>j<out_size.
                data gb' ! j = data gb ! j + (\<Sum>i<batch. data gy ! (i * out_size + j))))"
    using ok g2 by (auto simp: params_ok_def grads_ok_def grad_b_entry_def split: option.splits)
  show ?thesis
    using r g1 gWs b by (simp add: flat_index_bound entry_at)
qed

text \<open>
  An instance: the sample \<open>[3, 4]\<close>, the weight \<open>[[1, 2]]\<close>, the upstream gradient \<open>[[2]]\<close> and
  accumulators that hold \<open>[[10, 20]]\<close> and \<open>[100]\<close> before the call.
\<close>

lemma Linear_backward_gradients_instance:
  "params_ok \<lparr>params = [''W'' \<mapsto> \<lparr>dtype = Float32, shape = [1, 2], data = [1, 2 :: int]\<rparr>,
                        ''b'' \<mapsto> \<lparr>dtype = Float32, shape = [1], data = [5]\<rparr>],
              grads = [''W'' \<mapsto> \<lparr>dtype = Float32, shape = [1, 2], data = [10, 20]\<rparr>,
                       ''b'' \<mapsto> \<lparr>dtype = Float32, shape = [1], data = [100]\<rparr>]\<rparr> 2 1 \<and>
   valid_input \<lparr>dtype = Float32, shape = [1, 2], data = [3, 4 :: int]\<rparr> 1 2 \<and>
   valid_grad \<lparr>dtype = Float32, shape = [1, 1], data = [2 :: int]\<rparr> 1 1 \<and>
   (\<exists>gx self'.
      Linear_backward
        \<lparr>params = [''W'' \<mapsto> \<lparr>dtype = Float32, shape = [1, 2], data = [1, 2 :: int]\<rparr>,
                   ''b'' \<mapsto> \<lparr>dtype = Float32, shape = [1], data = [5]\<rparr>],
         grads = [''W'' \<mapsto> \<lparr>dtype = Float32, shape = [1, 2], data = [10, 20]\<rparr>,
                  ''b'' \<mapsto> \<lparr>dtype = Float32, shape = [1], data = [100]\<rparr>]\<rparr>
        [\<lparr>dtype = Float32, shape = [1, 2], data = [3, 4]\<rparr>]
        [\<lparr>dtype = Float32, shape = [1, 1], data = [2]\<rparr>] = Inr ([gx], self') \<and>
      shape gx = [1, 2] \<and> data gx ! 1 = 4 \<and>
      (\<exists>gW'. grads self' ''W'' = Some gW' \<and> data gW' ! 1 = 28) \<and>
      (\<exists>gb'. grads self' ''b'' = Some gb' \<and> data gb' ! 0 = 102))"
proof -
  let ?W = "\<lparr>dtype = Float32, shape = [1, 2], data = [1, 2 :: int]\<rparr>"
  let ?b = "\<lparr>dtype = Float32, shape = [1], data = [5 :: int]\<rparr>"
  let ?gW = "\<lparr>dtype = Float32, shape = [1, 2], data = [10, 20 :: int]\<rparr>"
  let ?gb = "\<lparr>dtype = Float32, shape = [1], data = [100 :: int]\<rparr>"
  let ?f = "\<lparr>params = [''W'' \<mapsto> ?W, ''b'' \<mapsto> ?b], grads = [''W'' \<mapsto> ?gW, ''b'' \<mapsto> ?gb]\<rparr>"
  let ?x = "\<lparr>dtype = Float32, shape = [1, 2], data = [3, 4 :: int]\<rparr>"
  let ?gy = "\<lparr>dtype = Float32, shape = [1, 1], data = [2 :: int]\<rparr>"
  have p: "params_ok ?f 2 1" by (simp add: params_ok_def)
  have g: "grads_ok ?f" by (simp add: grads_ok_def)
  have W: "params ?f ''W'' = Some ?W" by simp
  have gW: "grads ?f ''W'' = Some ?gW" by simp
  have x: "valid_input ?x 1 2" by (simp add: valid_input_def ndim_def)
  have nb: "0 < (1::nat) \<or> ndim ?x = 2" by simp
  have gy: "valid_grad ?gy 1 1" by (simp add: valid_grad_def)
  from Linear_backward_gradients [OF p g W gW x nb gy] obtain gx self' where
    c: "Linear_backward ?f [?x] [?gy] = Inr ([gx], self') \<and>
     shape gx = shape ?x \<and>
     (\<forall>i<1. \<forall>l<2.
        data gx ! (i * 2 + l) =
          (\<Sum>j<1. data ?gy ! (i * 1 + j) * data ?W ! (j * 2 + l))) \<and>
     (\<exists>gW'. grads self' ''W'' = Some gW' \<and> shape gW' = [1, 2] \<and>
        (\<forall>j<1. \<forall>l<2.
           data gW' ! (j * 2 + l) =
             data ?gW ! (j * 2 + l) +
             (\<Sum>i<1. data ?gy ! (i * 1 + j) * data ?x ! (i * 2 + l)))) \<and>
     (case params ?f ''b'' of
        None \<Rightarrow> grads self' ''b'' = None
      | Some b \<Rightarrow>
          (\<exists>gb gb'. grads ?f ''b'' = Some gb \<and> grads self' ''b'' = Some gb' \<and>
             shape gb' = [1] \<and>
             (\<forall>j<1.
                data gb' ! j = data gb ! j + (\<Sum>i<1. data ?gy ! (i * 1 + j)))))"
    by (elim exE) (rule that)
  from c have r': "Linear_backward ?f [?x] [?gy] = Inr ([gx], self')" "shape gx = [1, 2]"
    by simp_all
  from c have a1: "data gx ! 1 = 4" by simp
  from c have a2: "\<exists>gW'. grads self' ''W'' = Some gW' \<and> data gW' ! 1 = 28" by auto
  from c have a3: "\<exists>gb'. grads self' ''b'' = Some gb' \<and> data gb' ! 0 = 102" by auto
  from r' a1 a2 a3 have
    "Linear_backward ?f [?x] [?gy] = Inr ([gx], self') \<and>
      shape gx = [1, 2] \<and> data gx ! 1 = 4 \<and>
      (\<exists>gW'. grads self' ''W'' = Some gW' \<and> data gW' ! 1 = 28) \<and>
      (\<exists>gb'. grads self' ''b'' = Some gb' \<and> data gb' ! 0 = 102)"
    by (intro conjI)
  then have "\<exists>gx self'.
      Linear_backward ?f [?x] [?gy] = Inr ([gx], self') \<and>
      shape gx = [1, 2] \<and> data gx ! 1 = 4 \<and>
      (\<exists>gW'. grads self' ''W'' = Some gW' \<and> data gW' ! 1 = 28) \<and>
      (\<exists>gb'. grads self' ''b'' = Some gb' \<and> data gb' ! 0 = 102)"
    by (intro exI)
  with p x gy show ?thesis by (intro conjI)
qed

text \<open>
  C2. Backward is to add \<open>gy\<^sup>T \<cdot> X\<close> into the accumulator of \<open>W\<close> and to return \<open>gy \<cdot> W\<close> in
  the shape of \<open>x\<close> for every valid input. The empty batch of shape \<open>(0, 2, 1)\<close>, float32,
  is a valid input of an operator with \<open>in_size = 2\<close>: the validation accepts it, and the
  operator, its accumulators and the empty \<open>gy\<close> of shape \<open>(0, 1)\<close> have the shapes required.
  On it backward raises a ValueError, in \<open>_as_mat\<close>, and returns and accumulates nothing;
  the lemma above covers every other valid input.
\<close>

theorem C2_backward_empty_batch:
  "params_ok
     \<lparr>params = [''W'' \<mapsto> \<lparr>dtype = Float32, shape = [1, 2], data = [1, 2 :: real]\<rparr>],
      grads = [''W'' \<mapsto> \<lparr>dtype = Float32, shape = [1, 2], data = [0, 0]\<rparr>]\<rparr> 2 1 \<and>
   grads_ok
     \<lparr>params = [''W'' \<mapsto> \<lparr>dtype = Float32, shape = [1, 2], data = [1, 2 :: real]\<rparr>],
      grads = [''W'' \<mapsto> \<lparr>dtype = Float32, shape = [1, 2], data = [0, 0]\<rparr>]\<rparr> \<and>
   valid_input (\<lparr>dtype = Float32, shape = [0, 2, 1], data = []\<rparr> :: real ndarray) 0 2 \<and>
   valid_grad (\<lparr>dtype = Float32, shape = [0, 1], data = []\<rparr> :: real ndarray) 0 1 \<and>
   Linear_check_type_forward
     \<lparr>params = [''W'' \<mapsto> \<lparr>dtype = Float32, shape = [1, 2], data = [1, 2 :: real]\<rparr>],
      grads = [''W'' \<mapsto> \<lparr>dtype = Float32, shape = [1, 2], data = [0, 0]\<rparr>]\<rparr>
     [\<lparr>dtype = Float32, shape = [0, 2, 1], data = []\<rparr>] = Inr () \<and>
   Linear_backward
     \<lparr>params = [''W'' \<mapsto> \<lparr>dtype = Float32, shape = [1, 2], data = [1, 2 :: real]\<rparr>],
      grads = [''W'' \<mapsto> \<lparr>dtype = Float32, shape = [1, 2], data = [0, 0]\<rparr>]\<rparr>
     [\<lparr>dtype = Float32, shape = [0, 2, 1], data = []\<rparr>]
     [\<lparr>dtype = Float32, shape = [0, 1], data = []\<rparr>] = Inl ValueError"
  by (simp add: params_ok_def grads_ok_def valid_input_def valid_grad_def
      Linear_check_type_forward_def Linear_backward_def np_defs)

section \<open>The worked example of the forward pass\<close>

text \<open>
  C3 (as amended). For in_size = 3, out_size = 2 and a batch of 4, with \<open>X\<close> the 4 by 3
  matrix of ones, \<open>W = [[1,1,1],[2,2,2]]\<close> and the bias \<open>b = [0,1]\<close>, all float32, the
  forward computation returns \<open>Y = [[3,7],[3,7],[3,7],[3,7]]\<close>: each row of \<open>X\<close> times
  the second row of \<open>W\<close> is 6, and the bias adds 1. All these values and sums are exact
  in float32.
\<close>

theorem C3_forward_example:
  "ebind (Linear_init 3 2 (\<lambda>_. 0) 0 False
            (Some \<lparr>dtype = Float32, shape = [2, 3], data = [1, 1, 1, 2, 2, 2 :: real]\<rparr>)
            (Some \<lparr>dtype = Float32, shape = [2], data = [0, 1]\<rparr>))
     (\<lambda>f. Linear_forward f
        [\<lparr>dtype = Float32, shape = [4, 3], data = [1, 1, 1, 1, 1, 1, 1, 1, 1, 1, 1, 1]\<rparr>])
   = Inr [\<lparr>dtype = Float32, shape = [4, 2], data = [3, 7, 3, 7, 3, 7, 3, 7]\<rparr>]"
  by (simp add: Linear_init_def Linear_forward_def np_defs upt_rec)

text \<open>
  The output \<open>[[3,4],[3,4],[3,4],[3,4]]\<close> that the specification gives for this example is
  not what forward returns on it.
\<close>

theorem C3_stated_output_refuted:
  "ebind (Linear_init 3 2 (\<lambda>_. 0) 0 False
            (Some \<lparr>dtype = Float32, shape = [2, 3], data = [1, 1, 1, 2, 2, 2 :: real]\<rparr>)
            (Some \<lparr>dtype = Float32, shape = [2], data = [0, 1]\<rparr>))
     (\<lambda>f. Linear_forward f
        [\<lparr>dtype = Float32, shape = [4, 3], data = [1, 1, 1, 1, 1, 1, 1, 1, 1, 1, 1, 1]\<rparr>])
   \<noteq> Inr [\<lparr>dtype = Float32, shape = [4, 2], data = [3, 4, 3, 4, 3, 4, 3, 4]\<rparr>]"
  by (simp add: Linear_init_def Linear_forward_def np_defs upt_rec)

section \<open>Construction with the no-bias flag\<close>

text \<open>
  C4. An operator constructed with the no-bias flag is to hold no bias, whatever the
  other arguments. \<open>Linear.__init__\<close> looks at the flag only when no initial bias array
  is given: constructed with \<open>nobias = True\<close> and the initial bias \<open>[0, 1]\<close>, the operator
  holds that bias.
\<close>

theorem C4_nobias_with_initial_bias:
  "ebind (Linear_init 3 2 (\<lambda>_. 0) 0 True None
            (Some \<lparr>dtype = Float32, shape = [2], data = [0, 1 :: real]\<rparr>))
     (\<lambda>f. Inr (params f ''b''))
   = Inr (Some \<lparr>dtype = Float32, shape = [2], data = [0, 1]\<rparr>)"
  by (simp add: Linear_init_def np_defs)

section \<open>The function linear and the parameterized operator\<close>

text \<open>
  C5. For a valid \<open>x\<close> (of at least one sample, or a matrix already: the inputs on
  which forward returns), a float32 weight \<open>W\<close> of shape \<open>(out_size, in_size)\<close> and an
  optional float32 bias \<open>b\<close> of shape \<open>(out_size,)\<close>, the one-shot call \<open>linear(x, W, b)\<close>
  returns the output of a parameterized operator constructed with the initial weight \<open>W\<close>
  and the initial bias \<open>b\<close> (without a bias when \<open>b\<close> is absent), whether that operator is
  called with validation or its forward is run directly. Its backward returns the input
  gradient of that operator's backward and the contents of that operator's accumulators
  after they were zeroed and this one backward call was made: for a valid \<open>gy\<close> these
  exist, and for every list \<open>gys\<close> of upstream gradients both fail with the same error or
  both return the same gradients.
\<close>

theorem C5_linear_refines_operator:
  assumes x: "valid_input x batch in_size"
    and nb: "0 < batch \<or> ndim x = 2"
    and W: "dtype W = Float32" "shape W = [out_size, in_size]"
    and b: "case b of None \<Rightarrow> True | Some b' \<Rightarrow> dtype b' = Float32 \<and> shape b' = [out_size]"
    and gy: "valid_grad gy batch out_size"
  shows "\<exists>f y op gx f' gW op'.
     Linear_init in_size out_size normal bias (b = None \<or> nobias) (Some W) b = Inr f \<and>
     Linear_call f [x] = Inr [y] \<and>
     Linear_forward f [x] = Inr [y] \<and>
     linear_fn x W b = Inr ([y], op) \<and>
     Linear_backward (zerograds f) [x] [gy] = Inr ([gx], f') \<and>
     grads f' ''W'' = Some gW \<and>
     (grads f' ''b'' = None \<longleftrightarrow> b = None) \<and>
     NonparameterizedLinear_backward op (x # W # (case b of None \<Rightarrow> [] | Some b' \<Rightarrow> [b'])) [gy] =
       Inr (gx # gW # (case grads f' ''b'' of None \<Rightarrow> [] | Some gb \<Rightarrow> [gb]), op') \<and>
     (\<forall>gys.
        case Linear_backward (zerograds f) [x] gys of
          Inl e \<Rightarrow>
            NonparameterizedLinear_backward op
              (x # W # (case b of None \<Rightarrow> [] | Some b' \<Rightarrow> [b'])) gys = Inl e
        | Inr (gxs, f'') \<Rightarrow>
            (\<exists>gW''. grads f'' ''W'' = Some gW'' \<and>
               NonparameterizedLinear_backward op
                 (x # W # (case b of None \<Rightarrow> [] | Some b' \<Rightarrow> [b'])) gys =
                 Inr (gxs @ gW'' # (case grads f'' ''b'' of None \<Rightarrow> [] | Some gb \<Rightarrow> [gb]),
                      op\<lparr>func := Some f''\<rparr>)))"
proof -
  let ?xs = "x # W # (case b of None \<Rightarrow> [] | Some b' \<Rightarrow> [b'])"
  let ?ps = "case b of None \<Rightarrow> [''W'' \<mapsto> W] | Some b' \<Rightarrow> [''W'' \<mapsto> W, ''b'' \<mapsto> b']"
  let ?f = "zerograds \<lparr>params = ?ps, grads = Map.empty\<rparr>"
  let ?op = "NonparameterizedLinear_new\<lparr>func := Some ?f\<rparr> :: 'a NonparameterizedLinear"
  have init: "Linear_init in_size out_size normal bias (b = None \<or> nobias) (Some W) b = Inr ?f"
    using W b by (cases b) (simp_all add: Linear_init_given)
  have ok: "params_ok ?f in_size out_size"
    using W b by (cases b) (simp_all add: params_ok_def)
  have pW: "params ?f ''W'' = Some W" by (cases b) simp_all
  from Linear_forward_total [OF ok x nb] obtain y where y: "Linear_forward ?f [x] = Inr [y]" ..
  have call: "Linear_call ?f [x] = Inr [y]"
    using y Linear_check_valid [OF x pW W(2)] by (simp add: Linear_call_def)
  have lin: "linear_fn x W b = Inr ([y], ?op)"
  proof (cases b)
    case None
    with y show ?thesis
      using check_valid(1) [OF x W] NonparameterizedLinear_forward_value(1) [OF W(2)]
      by (simp add: linear_fn_def NonparameterizedLinear_call_def)
  next
    case (Some b')
    with b have bs: "shape b' = [out_size]" by simp
    from Some y show ?thesis
      using check_valid(2) [OF x W bs] NonparameterizedLinear_forward_value(2) [OF W(2) bs]
      by (simp add: linear_fn_def NonparameterizedLinear_call_def)
  qed
  have t: "take 1 ?xs = [x]" by simp
  from Linear_backward_zeroed [OF ok pW x nb gy]
  obtain gx f' where r: "Linear_backward (zerograds ?f) [x] [gy] = Inr ([gx], f')"
    by blast
  from Linear_backward_result [OF r] obtain gx' gW where "[gx] = [gx']"
    and gW: "grads f' ''W'' = Some gW" and "params f' = params (zerograds ?f)"
    and gb: "grads f' ''b'' = None \<longleftrightarrow> grads (zerograds ?f) ''b'' = None"
    by (elim exE conjE) (rule that)
  from gb have gb': "grads f' ''b'' = None \<longleftrightarrow> b = None" by (cases b) simp_all
  have fo: "func ?op = Some ?f" by simp
  have gen: "\<forall>gys.
        case Linear_backward (zerograds ?f) [x] gys of
          Inl e \<Rightarrow> NonparameterizedLinear_backward ?op ?xs gys = Inl e
        | Inr (gxs, f'') \<Rightarrow>
            (\<exists>gW''. grads f'' ''W'' = Some gW'' \<and>
               NonparameterizedLinear_backward ?op ?xs gys =
                 Inr (gxs @ gW'' # (case grads f'' ''b'' of None \<Rightarrow> [] | Some gb \<Rightarrow> [gb]),
                      ?op\<lparr>func := Some f''\<rparr>))"
    by (intro allI) (rule NonparameterizedLinear_backward_refines [OF fo t])
  from gen [rule_format, of "[gy]"] r gW
  have bw: "NonparameterizedLinear_backward ?op ?xs [gy] =
       Inr (gx # gW # (case grads f' ''b'' of None \<Rightarrow> [] | Some gb \<Rightarrow> [gb]),
            ?op\<lparr>func := Some f'\<rparr>)"
    by simp
  from init call y lin r gW gb' bw gen show ?thesis
    by (intro exI conjI)
qed

text \<open>
  An instance with a bias: the sample \<open>[3, 4]\<close>, \<open>W = [[1, 2]]\<close>, \<open>b = [5]\<close>, \<open>gy = [[2]]\<close>.
\<close>

theorem C5_linear_refines_operator_witness:
  "valid_input \<lparr>dtype = Float32, shape = [1, 2], data = [3, 4 :: int]\<rparr> 1 2 \<and>
   valid_grad \<lparr>dtype = Float32, shape = [1, 1], data = [2 :: int]\<rparr> 1 1 \<and>
   (\<exists>f y op gx f' gW gb op'.
      Linear_init 2 1 (\<lambda>_. 0) 0 False (Some \<lparr>dtype = Float32, shape = [1, 2], data = [1, 2 :: int]\<rparr>) (Some \<lparr>dtype = Float32, shape = [1], data = [5 :: int]\<rparr>) = Inr f \<and>
      Linear_forward f [\<lparr>dtype = Float32, shape = [1, 2], data = [3, 4 :: int]\<rparr>] = Inr [y] \<and>
      linear_fn \<lparr>dtype = Float32, shape = [1, 2], data = [3, 4 :: int]\<rparr> \<lparr>dtype = Float32, shape = [1, 2], data = [1, 2 :: int]\<rparr> (Some \<lparr>dtype = Float32, shape = [1], data = [5 :: int]\<rparr>) = Inr ([y], op) \<and>
      Linear_backward (zerograds f) [\<lparr>dtype = Float32, shape = [1, 2], data = [3, 4 :: int]\<rparr>] [\<lparr>dtype = Float32, shape = [1, 1], data = [2 :: int]\<rparr>] = Inr ([gx], f') \<and>
      grads f' ''W'' = Some gW \<and> grads f' ''b'' = Some gb \<and>
      NonparameterizedLinear_backward op [\<lparr>dtype = Float32, shape = [1, 2], data = [3, 4 :: int]\<rparr>, \<lparr>dtype = Float32, shape = [1, 2], data = [1, 2 :: int]\<rparr>, \<lparr>dtype = Float32, shape = [1], data = [5 :: int]\<rparr>] [\<lparr>dtype = Float32, shape = [1, 1], data = [2 :: int]\<rparr>] = Inr ([gx, gW, gb], op'))"
proof -
  let ?x = "\<lparr>dtype = Float32, shape = [1, 2], data = [3, 4 :: int]\<rparr>"
  let ?W = "\<lparr>dtype = Float32, shape = [1, 2], data = [1, 2 :: int]\<rparr>"
  let ?b = "\<lparr>dtype = Float32, shape = [1], data = [5 :: int]\<rparr>"
  let ?gy = "\<lparr>dtype = Float32, shape = [1, 1], data = [2 :: int]\<rparr>"
  have x: "valid_input ?x 1 2" by (simp add: valid_input_def ndim_def)
  have nb: "0 < (1::nat) \<or> ndim ?x = 2" by simp
  have W: "dtype ?W = Float32" "shape ?W = [1, 2]" by simp_all
  have b: "case Some ?b of None \<Rightarrow> True | Some b' \<Rightarrow> dtype b' = Float32 \<and> shape b' = [1]"
    by simp
  have gy: "valid_grad ?gy 1 1" by (simp add: valid_grad_def)
  from C5_linear_refines_operator [OF x nb W b gy, where normal = "\<lambda>_. 0" and bias = 0
      and nobias = False]
  obtain f y op gx f' gW op' where
    d: "Linear_init 2 1 (\<lambda>_. 0) 0 ((Some ?b) = None \<or> False) (Some ?W) (Some ?b) = Inr f \<and>
     Linear_call f [?x] = Inr [y] \<and>
     Linear_forward f [?x] = Inr [y] \<and>
     linear_fn ?x ?W (Some ?b) = Inr ([y], op) \<and>
     Linear_backward (zerograds f) [?x] [?gy] = Inr ([gx], f') \<and>
     grads f' ''W'' = Some gW \<and>
     (grads f' ''b'' = None \<longleftrightarrow> (Some ?b) = None) \<and>
     NonparameterizedLinear_backward op (?x # ?W # (case (Some ?b) of None \<Rightarrow> [] | Some b' \<Rightarrow> [b'])) [?gy] =
       Inr (gx # gW # (case grads f' ''b'' of None \<Rightarrow> [] | Some gb \<Rightarrow> [gb]), op') \<and>
     (\<forall>gys.
        case Linear_backward (zerograds f) [?x] gys of
          Inl e \<Rightarrow>
            NonparameterizedLinear_backward op
              (?x # ?W # (case (Some ?b) of None \<Rightarrow> [] | Some b' \<Rightarrow> [b'])) gys = Inl e
        | Inr (gxs, f'') \<Rightarrow>
            (\<exists>gW''. grads f'' ''W'' = Some gW'' \<and>
               NonparameterizedLinear_backward op
                 (?x # ?W # (case (Some ?b) of None \<Rightarrow> [] | Some b' \<Rightarrow> [b'])) gys =
                 Inr (gxs @ gW'' # (case grads f'' ''b'' of None \<Rightarrow> [] | Some gb \<Rightarrow> [gb]),
                      op\<lparr>func := Some f''\<rparr>)))"
    by (elim exE) (rule that)
  from d obtain gb where gb: "grads f' ''b'' = Some gb" by auto
  from d gb have "Linear_init 2 1 (\<lambda>_. 0) 0 False (Some ?W) (Some ?b) = Inr f \<and>
      Linear_forward f [?x] = Inr [y] \<and>
      linear_fn ?x ?W (Some ?b) = Inr ([y], op) \<and>
      Linear_backward (zerograds f) [?x] [?gy] = Inr ([gx], f') \<and>
      grads f' ''W'' = Some gW \<and> grads f' ''b'' = Some gb \<and>
      NonparameterizedLinear_backward op [?x, ?W, ?b] [?gy] = Inr ([gx, gW, gb], op')"
    by (intro conjI) simp_all
  then have "\<exists>f y op gx f' gW gb op'.
      Linear_init 2 1 (\<lambda>_. 0) 0 False (Some ?W) (Some ?b) = Inr f \<and>
      Linear_forward f [?x] = Inr [y] \<and>
      linear_fn ?x ?W (Some ?b) = Inr ([y], op) \<and>
      Linear_backward (zerograds f) [?x] [?gy] = Inr ([gx], f') \<and>
      grads f' ''W'' = Some gW \<and> grads f' ''b'' = Some gb \<and>
      NonparameterizedLinear_backward op [?x, ?W, ?b] [?gy] = Inr ([gx, gW, gb], op')"
    by (intro exI)
  with x gy show ?thesis by (intro conjI)
qed

section \<open>Accumulation over two backward calls\<close>

text \<open>
  On an operator whose accumulators were zeroed once, two backward calls with the same
  valid \<open>x\<close> (of at least one sample, or a matrix already) and \<open>gy\<close> leave in the
  accumulator of \<open>W\<close>, and in that of \<open>b\<close> when the operator has a bias, exactly twice
  (every entry added to itself) what the first of the two calls left there.
\<close>

lemma Linear_backward_twice:
  assumes ok: "params_ok self in_size out_size"
    and x: "valid_input x batch in_size"
    and nb: "0 < batch \<or> ndim x = 2"
    and gy: "valid_grad gy batch out_size"
  shows "\<exists>gx1 s1 gx2 s2.
     Linear_backward (zerograds self) [x] [gy] = Inr (gx1, s1) \<and>
     Linear_backward s1 [x] [gy] = Inr (gx2, s2) \<and>
     (\<exists>g1 g2. grads s1 ''W'' = Some g1 \<and> grads s2 ''W'' = Some g2 \<and>
        shape g1 = [out_size, in_size] \<and> shape g2 = [out_size, in_size] \<and>
        length (data g1) = out_size * in_size \<and>
        data g2 = map (\<lambda>v. v + v) (data g1)) \<and>
     (case params self ''b'' of
        None \<Rightarrow> grads s1 ''b'' = None \<and> grads s2 ''b'' = None
      | Some b \<Rightarrow>
          (\<exists>h1 h2. grads s1 ''b'' = Some h1 \<and> grads s2 ''b'' = Some h2 \<and>
             shape h1 = [out_size] \<and> shape h2 = [out_size] \<and>
             length (data h1) = out_size \<and>
             data h2 = map (\<lambda>v. v + v) (data h1)))"
proof -
  from ok obtain W where W: "params self ''W'' = Some W"
    and Ws: "shape W = [out_size, in_size]" and Wd: "dtype W = Float32"
    by (auto simp: params_ok_def split: option.splits)
  from gy have gys: "shape gy = [batch, out_size]" by (simp add: valid_grad_def)
  let ?e = "grad_W_entry gy x batch in_size out_size"
  let ?c = "grad_b_entry gy batch out_size"
  let ?z = "zerograds self"
  have W0: "params ?z ''W'' = Some W" using W by simp
  have gW0: "grads ?z ''W'' = Some (np_zeros_like W)" using W by simp
  have gb0: "case grads ?z ''b'' of None \<Rightarrow> True
             | Some gb \<Rightarrow> shape gb = [out_size] \<and> is_float (dtype gb)"
    using ok by (auto simp: params_ok_def split: option.splits)
  from Linear_backward_step [OF W0 Ws gW0 _ _ x nb gys gb0] Ws Wd
  obtain gx1 s1 where
    r1: "Linear_backward ?z [x] [gy] = Inr (gx1, s1)"
    and p1: "params s1 = params self"
    and g1: "grads s1 ''W'' =
       Some ((np_zeros_like W)\<lparr>data := map (\<lambda>k. data (np_zeros_like W) ! k + ?e k)
                                          [0..<out_size * in_size]\<rparr>)"
    and h1: "grads s1 ''b'' =
       map_option (\<lambda>gb. gb\<lparr>data := map (\<lambda>j. data gb ! j + ?c j) [0..<out_size]\<rparr>)
         (grads ?z ''b'')"
    by auto
  let ?g1 = "(np_zeros_like W)\<lparr>data := map (\<lambda>k. data (np_zeros_like W) ! k + ?e k)
                                          [0..<out_size * in_size]\<rparr>"
  have W1: "params s1 ''W'' = Some W" using W p1 by simp
  have g1s: "shape ?g1 = [out_size, in_size]" "is_float (dtype ?g1)" using Ws Wd by simp_all
  have gb1: "case grads s1 ''b'' of None \<Rightarrow> True
             | Some gb \<Rightarrow> shape gb = [out_size] \<and> is_float (dtype gb)"
    using ok h1 by (auto simp: params_ok_def split: option.splits)
  from Linear_backward_step [OF W1 Ws g1 g1s x nb gys gb1]
  obtain gx2 s2 where
    r2: "Linear_backward s1 [x] [gy] = Inr (gx2, s2)"
    and g2: "grads s2 ''W'' =
       Some (?g1\<lparr>data := map (\<lambda>k. data ?g1 ! k + ?e k) [0..<out_size * in_size]\<rparr>)"
    and h2: "grads s2 ''b'' =
       map_option (\<lambda>gb. gb\<lparr>data := map (\<lambda>j. data gb ! j + ?c j) [0..<out_size]\<rparr>)
         (grads s1 ''b'')"
    by auto
  have twiceW: "\<exists>g1 g2. grads s1 ''W'' = Some g1 \<and> grads s2 ''W'' = Some g2 \<and>
        shape g1 = [out_size, in_size] \<and> shape g2 = [out_size, in_size] \<and>
        length (data g1) = out_size * in_size \<and>
        data g2 = map (\<lambda>v. v + v) (data g1)"
    using g1 g2 Ws by simp
  have twiceb: "case params self ''b'' of
        None \<Rightarrow> grads s1 ''b'' = None \<and> grads s2 ''b'' = None
      | Some b \<Rightarrow>
          (\<exists>h1 h2. grads s1 ''b'' = Some h1 \<and> grads s2 ''b'' = Some h2 \<and>
             shape h1 = [out_size] \<and> shape h2 = [out_size] \<and>
             length (data h1) = out_size \<and>
             data h2 = map (\<lambda>v. v + v) (data h1))"
    using ok h1 h2 by (auto simp: params_ok_def split: option.splits)
  from r1 r2 twiceW twiceb show ?thesis by blast
qed

text \<open>
  An instance: the sample \<open>[3, 4]\<close>, the weight \<open>[[1, 2]]\<close>, the bias \<open>[5]\<close>, \<open>gy = [[2]]\<close>.
\<close>

lemma Linear_backward_twice_instance:
  "params_ok \<lparr>params = [''W'' \<mapsto> \<lparr>dtype = Float32, shape = [1, 2], data = [1, 2 :: int]\<rparr>,
                        ''b'' \<mapsto> \<lparr>dtype = Float32, shape = [1], data = [5]\<rparr>],
              grads = Map.empty\<rparr> 2 1 \<and>
   valid_input \<lparr>dtype = Float32, shape = [1, 2], data = [3, 4 :: int]\<rparr> 1 2 \<and>
   valid_grad \<lparr>dtype = Float32, shape = [1, 1], data = [2 :: int]\<rparr> 1 1 \<and>
   (\<exists>gx1 s1 gx2 s2.
      Linear_backward
        (zerograds
           \<lparr>params = [''W'' \<mapsto> \<lparr>dtype = Float32, shape = [1, 2], data = [1, 2 :: int]\<rparr>,
                      ''b'' \<mapsto> \<lparr>dtype = Float32, shape = [1], data = [5]\<rparr>],
            grads = Map.empty\<rparr>)
        [\<lparr>dtype = Float32, shape = [1, 2], data = [3, 4]\<rparr>]
        [\<lparr>dtype = Float32, shape = [1, 1], data = [2]\<rparr>] = Inr (gx1, s1) \<and>
      Linear_backward s1
        [\<lparr>dtype = Float32, shape = [1, 2], data = [3, 4]\<rparr>]
        [\<lparr>dtype = Float32, shape = [1, 1], data = [2]\<rparr>] = Inr (gx2, s2) \<and>
      (\<exists>g1 g2. grads s1 ''W'' = Some g1 \<and> grads s2 ''W'' = Some g2 \<and>
         length (data g1) = 2 \<and> data g2 = map (\<lambda>v. v + v) (data g1)) \<and>
      (\<exists>h1 h2. grads s1 ''b'' = Some h1 \<and> grads s2 ''b'' = Some h2 \<and>
         length (data h1) = 1 \<and> data h2 = map (\<lambda>v. v + v) (data h1)))"
proof -
  let ?W = "\<lparr>dtype = Float32, shape = [1, 2], data = [1, 2 :: int]\<rparr>"
  let ?b = "\<lparr>dtype = Float32, shape = [1], data = [5 :: int]\<rparr>"
  let ?f = "\<lparr>params = [''W'' \<mapsto> ?W, ''b'' \<mapsto> ?b], grads = Map.empty\<rparr>"
  let ?x = "\<lparr>dtype = Float32, shape = [1, 2], data = [3, 4 :: int]\<rparr>"
  let ?gy = "\<lparr>dtype = Float32, shape = [1, 1], data = [2 :: int]\<rparr>"
  have p: "params_ok ?f 2 1" by (simp add: params_ok_def)
  have x: "valid_input ?x 1 2" by (simp add: valid_input_def ndim_def)
  have nb: "0 < (1::nat) \<or> ndim ?x = 2" by simp
  have gy: "valid_grad ?gy 1 1" by (simp add: valid_grad_def)
  from Linear_backward_twice [OF p x nb gy] obtain gx1 s1 gx2 s2 where
    c: "Linear_backward (zerograds ?f) [?x] [?gy] = Inr (gx1, s1) \<and>
     Linear_backward s1 [?x] [?gy] = Inr (gx2, s2) \<and>
     (\<exists>g1 g2. grads s1 ''W'' = Some g1 \<and> grads s2 ''W'' = Some g2 \<and>
        shape g1 = [1, 2] \<and> shape g2 = [1, 2] \<and>
        length (data g1) = 1 * 2 \<and>
        data g2 = map (\<lambda>v. v + v) (data g1)) \<and>
     (case params ?f ''b'' of
        None \<Rightarrow> grads s1 ''b'' = None \<and> grads s2 ''b'' = None
      | Some b \<Rightarrow>
          (\<exists>h1 h2. grads s1 ''b'' = Some h1 \<and> grads s2 ''b'' = Some h2 \<and>
             shape h1 = [1] \<and> shape h2 = [1] \<and>
             length (data h1) = 1 \<and>
             data h2 = map (\<lambda>v. v + v) (data h1)))"
    by (elim exE) (rule that)
  from c have r: "Linear_backward (zerograds ?f) [?x] [?gy] = Inr (gx1, s1)"
    "Linear_backward s1 [?x] [?gy] = Inr (gx2, s2)"
    by simp_all
  from c have a: "\<exists>g1 g2. grads s1 ''W'' = Some g1 \<and> grads s2 ''W'' = Some g2 \<and>
         length (data g1) = 2 \<and> data g2 = map (\<lambda>v. v + v) (data g1)"
    by auto
  from c have b: "\<exists>h1 h2. grads s1 ''b'' = Some h1 \<and> grads s2 ''b'' = Some h2 \<and>
         length (data h1) = 1 \<and> data h2 = map (\<lambda>v. v + v) (data h1)"
    by auto
  from r a b have
    "Linear_backward (zerograds ?f) [?x] [?gy] = Inr (gx1, s1) \<and>
      Linear_backward s1 [?x] [?gy] = Inr (gx2, s2) \<and>
      (\<exists>g1 g2. grads s1 ''W'' = Some g1 \<and> grads s2 ''W'' = Some g2 \<and>
         length (data g1) = 2 \<and> data g2 = map (\<lambda>v. v + v) (data g1)) \<and>
      (\<exists>h1 h2. grads s1 ''b'' = Some h1 \<and> grads s2 ''b'' = Some h2 \<and>
         length (data h1) = 1 \<and> data h2 = map (\<lambda>v. v + v) (data h1))"
    by (intro conjI)
  then have "\<exists>gx1 s1 gx2 s2.
      Linear_backward (zerograds ?f) [?x] [?gy] = Inr (gx1, s1) \<and>
      Linear_backward s1 [?x] [?gy] = Inr (gx2, s2) \<and>
      (\<exists>g1 g2. grads s1 ''W'' = Some g1 \<and> grads s2 ''W'' = Some g2 \<and>
         length (data g1) = 2 \<and> data g2 = map (\<lambda>v. v + v) (data g1)) \<and>
      (\<exists>h1 h2. grads s1 ''b'' = Some h1 \<and> grads s2 ''b'' = Some h2 \<and>
         length (data h1) = 1 \<and> data h2 = map (\<lambda>v. v + v) (data h1))"
    by (intro exI)
  with p x gy show ?thesis by (intro conjI)
qed

text \<open>
  C6. Two backward calls after one zeroing are to leave twice the gradients of one call,
  for every valid \<open>x\<close> and \<open>gy\<close>. On the empty batch of shape \<open>(0, 2, 1)\<close>, float32, which
  the validation accepts, the first backward call on the zeroed operator raises a
  ValueError, in \<open>_as_mat\<close>: nothing is accumulated, once or twice. The lemma above covers
  every other valid input.
\<close>

theorem C6_backward_twice_empty_batch:
  "params_ok
     \<lparr>params = [''W'' \<mapsto> \<lparr>dtype = Float32, shape = [1, 2], data = [1, 2 :: real]\<rparr>,
                ''b'' \<mapsto> \<lparr>dtype = Float32, shape = [1], data = [5]\<rparr>],
      grads = Map.empty\<rparr> 2 1 \<and>
   valid_input (\<lparr>dtype = Float32, shape = [0, 2, 1], data = []\<rparr> :: real ndarray) 0 2 \<and>
   valid_grad (\<lparr>dtype = Float32, shape = [0, 1], data = []\<rparr> :: real ndarray) 0 1 \<and>
   Linear_check_type_forward
     (zerograds
        \<lparr>params = [''W'' \<mapsto> \<lparr>dtype = Float32, shape = [1, 2], data = [1, 2 :: real]\<rparr>,
                ''b'' \<mapsto> \<lparr>dtype = Float32, shape = [1], data = [5]\<rparr>],
      grads = Map.empty\<rparr>)
     [\<lparr>dtype = Float32, shape = [0, 2, 1], data = []\<rparr>] = Inr () \<and>
   Linear_backward
     (zerograds
        \<lparr>params = [''W'' \<mapsto> \<lparr>dtype = Float32, shape = [1, 2], data = [1, 2 :: real]\<rparr>,
                ''b'' \<mapsto> \<lparr>dtype = Float32, shape = [1], data = [5]\<rparr>],
      grads = Map.empty\<rparr>)
     [\<lparr>dtype = Float32, shape = [0, 2, 1], data = []\<rparr>]
     [\<lparr>dtype = Float32, shape = [0, 1], data = []\<rparr>] = Inl ValueError"
  by (simp add: params_ok_def valid_input_def valid_grad_def
      Linear_check_type_forward_def Linear_backward_def np_defs)

section \<open>Inputs with more than two axes\<close>

text \<open>
  For a float32 input \<open>x\<close> of shape \<open>(batch, d1, d2)\<close> with at least one sample, forward
  returns the same output as on \<open>x\<close> reshaped to \<open>(batch, d1 * d2)\<close>, and the input gradient
  that backward returns has the shape \<open>(batch, d1, d2)\<close> of \<open>x\<close>.
\<close>

lemma Linear_flattening:
  assumes ok: "params_ok self (d1 * d2) out_size" "grads_ok self"
    and x: "dtype x = Float32" "shape x = [batch, d1, d2]" "0 < batch"
    and gy: "valid_grad gy batch out_size"
  shows "(\<exists>y. Linear_forward self [x] = Inr [y] \<and>
              Linear_forward self [x\<lparr>shape := [batch, d1 * d2]\<rparr>] = Inr [y]) \<and>
         (\<exists>gx self'. Linear_backward self [x] [gy] = Inr ([gx], self') \<and>
              shape gx = [batch, d1, d2])"
proof -
  have v: "valid_input x batch (d1 * d2)" using x by (simp add: valid_input_def ndim_def)
  have nb: "0 < batch \<or> ndim x = 2" using x(3) by simp
  from Linear_forward_total [OF ok(1) v nb] obtain y where y: "Linear_forward self [x] = Inr [y]" ..
  have "Linear_forward self [x] = Linear_forward self [x\<lparr>shape := [batch, prod_list [d1, d2]]\<rparr>]"
    using x by (intro Linear_forward_flat) simp_all
  with y have fwd: "\<exists>y. Linear_forward self [x] = Inr [y] \<and>
              Linear_forward self [x\<lparr>shape := [batch, d1 * d2]\<rparr>] = Inr [y]"
    by simp
  from ok obtain W gW where W: "params self ''W'' = Some W" "shape W = [out_size, d1 * d2]"
    and gW: "grads self ''W'' = Some gW" "shape gW = [out_size, d1 * d2]" "is_float (dtype gW)"
    by (auto simp: params_ok_def grads_ok_def split: option.splits)
  have gb: "case grads self ''b'' of None \<Rightarrow> True
            | Some gb \<Rightarrow> shape gb = [out_size] \<and> is_float (dtype gb)"
    using ok by (auto simp: params_ok_def grads_ok_def split: option.splits)
  from gy have gys: "shape gy = [batch, out_size]" by (simp add: valid_grad_def)
  from Linear_backward_step [OF W gW v nb gys gb] x(2)
  have "\<exists>gx self'. Linear_backward self [x] [gy] = Inr ([gx], self') \<and>
              shape gx = [batch, d1, d2]"
    by auto
  with fwd show ?thesis ..
qed

text \<open>
  An instance: three samples of shape \<open>(2, 1)\<close>.
\<close>

lemma Linear_flattening_instance:
  "params_ok \<lparr>params = [''W'' \<mapsto> \<lparr>dtype = Float32, shape = [1, 2], data = [1, 2 :: int]\<rparr>],
              grads = [''W'' \<mapsto> \<lparr>dtype = Float32, shape = [1, 2], data = [10, 20]\<rparr>]\<rparr> 2 1 \<and>
   grads_ok \<lparr>params = [''W'' \<mapsto> \<lparr>dtype = Float32, shape = [1, 2], data = [1, 2 :: int]\<rparr>],
             grads = [''W'' \<mapsto> \<lparr>dtype = Float32, shape = [1, 2], data = [10, 20]\<rparr>]\<rparr> \<and>
   valid_grad \<lparr>dtype = Float32, shape = [3, 1], data = [2, 0, 1 :: int]\<rparr> 3 1 \<and>
   (\<exists>y. Linear_forward
          \<lparr>params = [''W'' \<mapsto> \<lparr>dtype = Float32, shape = [1, 2], data = [1, 2 :: int]\<rparr>],
           grads = [''W'' \<mapsto> \<lparr>dtype = Float32, shape = [1, 2], data = [10, 20]\<rparr>]\<rparr>
          [\<lparr>dtype = Float32, shape = [3, 2, 1], data = [3, 4, 5, 6, 7, 8]\<rparr>] = Inr [y] \<and>
        Linear_forward
          \<lparr>params = [''W'' \<mapsto> \<lparr>dtype = Float32, shape = [1, 2], data = [1, 2 :: int]\<rparr>],
           grads = [''W'' \<mapsto> \<lparr>dtype = Float32, shape = [1, 2], data = [10, 20]\<rparr>]\<rparr>
          [\<lparr>dtype = Float32, shape = [3, 2], data = [3, 4, 5, 6, 7, 8]\<rparr>] = Inr [y]) \<and>
   (\<exists>gx self'.
      Linear_backward
        \<lparr>params = [''W'' \<mapsto> \<lparr>dtype = Float32, shape = [1, 2], data = [1, 2 :: int]\<rparr>],
         grads = [''W'' \<mapsto> \<lparr>dtype = Float32, shape = [1, 2], data = [10, 20]\<rparr>]\<rparr>
        [\<lparr>dtype = Float32, shape = [3, 2, 1], data = [3, 4, 5, 6, 7, 8]\<rparr>]
        [\<lparr>dtype = Float32, shape = [3, 1], data = [2, 0, 1]\<rparr>] = Inr ([gx], self') \<and>
      shape gx = [3, 2, 1])"
proof -
  let ?W = "\<lparr>dtype = Float32, shape = [1, 2], data = [1, 2 :: int]\<rparr>"
  let ?gW = "\<lparr>dtype = Float32, shape = [1, 2], data = [10, 20 :: int]\<rparr>"
  let ?f = "\<lparr>params = [''W'' \<mapsto> ?W], grads = [''W'' \<mapsto> ?gW]\<rparr>"
  let ?x = "\<lparr>dtype = Float32, shape = [3, 2, 1], data = [3, 4, 5, 6, 7, 8 :: int]\<rparr>"
  let ?gy = "\<lparr>dtype = Float32, shape = [3, 1], data = [2, 0, 1 :: int]\<rparr>"
  have p: "params_ok ?f 2 1" by (simp add: params_ok_def)
  have p': "params_ok ?f (2 * 1) 1" using p by simp
  have g: "grads_ok ?f" by (simp add: grads_ok_def)
  have x: "dtype ?x = Float32" "shape ?x = [3, 2, 1]" "0 < (3::nat)" by simp_all
  have gy: "valid_grad ?gy 3 1" by (simp add: valid_grad_def)
  from Linear_flattening [OF p' g x gy]
  have "(\<exists>y. Linear_forward ?f [?x] = Inr [y] \<and>
             Linear_forward ?f [?x\<lparr>shape := [3, 2 * 1]\<rparr>] = Inr [y]) \<and>
        (\<exists>gx self'. Linear_backward ?f [?x] [?gy] = Inr ([gx], self') \<and> shape gx = [3, 2, 1])" .
  then have "(\<exists>y. Linear_forward ?f [?x] = Inr [y] \<and>
             Linear_forward ?f [\<lparr>dtype = Float32, shape = [3, 2], data = [3, 4, 5, 6, 7, 8]\<rparr>] = Inr [y]) \<and>
        (\<exists>gx self'. Linear_backward ?f [?x] [?gy] = Inr ([gx], self') \<and> shape gx = [3, 2, 1])"
    by simp
  with p g gy show ?thesis by (intro conjI) simp_all
qed

text \<open>
  C7. Forward on an input of shape \<open>(batch, d1, d2)\<close> is to return what it returns on the
  input reshaped to \<open>(batch, d1 * d2)\<close>, and backward an input gradient of the shape of
  the input. On the empty batch of shape \<open>(0, 2, 1)\<close>, float32, which the validation
  accepts, forward raises a ValueError in \<open>_as_mat\<close> (\<open>reshape(0, -1)\<close>), while on the same
  input in shape \<open>(0, 2)\<close>, which \<open>_as_mat\<close> passes on unchanged, it returns the empty
  output of shape \<open>(0, 1)\<close>; backward raises the same error and returns no gradient.
\<close>

theorem C7_empty_batch_not_flattened:
  "Linear_check_type_forward
     \<lparr>params = [''W'' \<mapsto> \<lparr>dtype = Float32, shape = [1, 2], data = [1, 2 :: real]\<rparr>],
      grads = [''W'' \<mapsto> \<lparr>dtype = Float32, shape = [1, 2], data = [0, 0]\<rparr>]\<rparr>
     [\<lparr>dtype = Float32, shape = [0, 2, 1], data = []\<rparr>] = Inr () \<and>
   Linear_forward
     \<lparr>params = [''W'' \<mapsto> \<lparr>dtype = Float32, shape = [1, 2], data = [1, 2 :: real]\<rparr>],
      grads = [''W'' \<mapsto> \<lparr>dtype = Float32, shape = [1, 2], data = [0, 0]\<rparr>]\<rparr>
     [\<lparr>dtype = Float32, shape = [0, 2, 1], data = []\<rparr>] = Inl ValueError \<and>
   Linear_forward
     \<lparr>params = [''W'' \<mapsto> \<lparr>dtype = Float32, shape = [1, 2], data = [1, 2 :: real]\<rparr>],
      grads = [''W'' \<mapsto> \<lparr>dtype = Float32, shape = [1, 2], data = [0, 0]\<rparr>]\<rparr>
     [\<lparr>dtype = Float32, shape = [0, 2, 1], data = []\<rparr>\<lparr>shape := [0, 2 * 1]\<rparr>] =
     Inr [\<lparr>dtype = Float32, shape = [0, 1], data = []\<rparr>] \<and>
   Linear_backward
     \<lparr>params = [''W'' \<mapsto> \<lparr>dtype = Float32, shape = [1, 2], data = [1, 2 :: real]\<rparr>],
      grads = [''W'' \<mapsto> \<lparr>dtype = Float32, shape = [1, 2], data = [0, 0]\<rparr>]\<rparr>
     [\<lparr>dtype = Float32, shape = [0, 2, 1], data = []\<rparr>]
     [\<lparr>dtype = Float32, shape = [0, 1], data = []\<rparr>] = Inl ValueError"
  by (simp add: Linear_check_type_forward_def Linear_forward_def Linear_backward_def np_defs)

section \<open>Validation before forward\<close>

text \<open>
  C8. When the single input of the parameterized operator is not float32, or has fewer
  than two axes, or the product of its axes after the first is not \<open>in_size\<close> (the second
  axis of \<open>W\<close>), the validation raises \<open>InvalidType\<close>, and so does the call of the operator:
  forward is not run. The error is the validation's: forward itself never raises it.
\<close>

theorem C8_validation_rejects:
  assumes ok: "params_ok self in_size out_size"
    and bad: "dtype x \<noteq> Float32 \<or> ndim x < 2 \<or> prod_list (drop 1 (shape x)) \<noteq> in_size"
  shows "Linear_check_type_forward self [x] = Inl InvalidType \<and>
         Linear_call self [x] = Inl InvalidType \<and>
         Linear_forward self [x] \<noteq> Inl InvalidType"
proof -
  from ok obtain W where W: "params self ''W'' = Some W" "shape W = [out_size, in_size]"
    by (auto simp: params_ok_def split: option.splits)
  have "Linear_check_type_forward self [x] = Inl InvalidType"
    using W bad by (auto simp: Linear_check_type_forward_def lookup_Some item_def)
  then show ?thesis by (simp add: Linear_call_def Linear_forward_not_InvalidType)
qed

text \<open>
  Three instances against a weight of shape \<open>(1, 2)\<close>: a float64 matrix, a float32 vector,
  and a float32 matrix of three columns.
\<close>

theorem C8_validation_rejects_witness:
  "params_ok \<lparr>params = [''W'' \<mapsto> \<lparr>dtype = Float32, shape = [1, 2], data = [1, 2 :: int]\<rparr>],
              grads = Map.empty\<rparr> 2 1 \<and>
   Linear_check_type_forward
     \<lparr>params = [''W'' \<mapsto> \<lparr>dtype = Float32, shape = [1, 2], data = [1, 2 :: int]\<rparr>],
      grads = Map.empty\<rparr>
     [\<lparr>dtype = Float64, shape = [1, 2], data = [3, 4]\<rparr>] = Inl InvalidType \<and>
   Linear_call
     \<lparr>params = [''W'' \<mapsto> \<lparr>dtype = Float32, shape = [1, 2], data = [1, 2 :: int]\<rparr>],
      grads = Map.empty\<rparr>
     [\<lparr>dtype = Float64, shape = [1, 2], data = [3, 4]\<rparr>] = Inl InvalidType \<and>
   Linear_check_type_forward
     \<lparr>params = [''W'' \<mapsto> \<lparr>dtype = Float32, shape = [1, 2], data = [1, 2 :: int]\<rparr>],
      grads = Map.empty\<rparr>
     [\<lparr>dtype = Float32, shape = [2], data = [3, 4]\<rparr>] = Inl InvalidType \<and>
   Linear_check_type_forward
     \<lparr>params = [''W'' \<mapsto> \<lparr>dtype = Float32, shape = [1, 2], data = [1, 2 :: int]\<rparr>],
      grads = Map.empty\<rparr>
     [\<lparr>dtype = Float32, shape = [1, 3], data = [3, 4, 5]\<rparr>] = Inl InvalidType"
proof -
  let ?W = "\<lparr>dtype = Float32, shape = [1, 2], data = [1, 2 :: int]\<rparr>"
  let ?f = "\<lparr>params = [''W'' \<mapsto> ?W], grads = Map.empty\<rparr>"
  let ?x1 = "\<lparr>dtype = Float64, shape = [1, 2], data = [3, 4 :: int]\<rparr>"
  let ?x2 = "\<lparr>dtype = Float32, shape = [2], data = [3, 4 :: int]\<rparr>"
  let ?x3 = "\<lparr>dtype = Float32, shape = [1, 3], data = [3, 4, 5 :: int]\<rparr>"
  have p: "params_ok ?f 2 1" by (simp add: params_ok_def)
  have b1: "dtype ?x1 \<noteq> Float32 \<or> ndim ?x1 < 2 \<or> prod_list (drop 1 (shape ?x1)) \<noteq> 2"
    by simp
  have b2: "dtype ?x2 \<noteq> Float32 \<or> ndim ?x2 < 2 \<or> prod_list (drop 1 (shape ?x2)) \<noteq> 2"
    by (simp add: ndim_def)
  have b3: "dtype ?x3 \<noteq> Float32 \<or> ndim ?x3 < 2 \<or> prod_list (drop 1 (shape ?x3)) \<noteq> 2"
    by simp
  from C8_validation_rejects [OF p b1] C8_validation_rejects [OF p b2]
    C8_validation_rejects [OF p b3] p
  show ?thesis by simp
qed

section \<open>Backward of the nonparameterized operator\<close>



section \<open>The dtype of the bias input is not validated\<close>

text \<open>
  C10. The validation of the nonparameterized operator does not look at the dtype of
  the bias input: changing it does not change the outcome. It passes only when \<open>x\<close> and
  \<open>W\<close> are float32. On the inputs \<open>x = [[3, 4]]\<close> and \<open>W = [[1, 2]]\<close> (float32) and the
  float64 bias \<open>b = [5]\<close>, of one axis and of the length of the first axis of \<open>W\<close>, the
  validation passes and the call runs forward, which returns \<open>[[16]]\<close>.
\<close>

theorem C10_bias_dtype_unchecked:
  "NonparameterizedLinear_check_type_forward [x, W, b\<lparr>dtype := d\<rparr>] =
     NonparameterizedLinear_check_type_forward [x, W, b] \<and>
   (NonparameterizedLinear_check_type_forward [x, W, b] = Inr () \<longrightarrow>
      dtype x = Float32 \<and> dtype W = Float32) \<and>
   NonparameterizedLinear_check_type_forward
     [\<lparr>dtype = Float32, shape = [1, 2], data = [3, 4 :: real]\<rparr>,
      \<lparr>dtype = Float32, shape = [1, 2], data = [1, 2]\<rparr>,
      \<lparr>dtype = Float64, shape = [1], data = [5]\<rparr>] = Inr () \<and>
   ebind (NonparameterizedLinear_call NonparameterizedLinear_new
            [\<lparr>dtype = Float32, shape = [1, 2], data = [3, 4 :: real]\<rparr>,
             \<lparr>dtype = Float32, shape = [1, 2], data = [1, 2]\<rparr>,
             \<lparr>dtype = Float64, shape = [1], data = [5]\<rparr>])
     (\<lambda>(y, _). Inr y) = Inr [\<lparr>dtype = Float32, shape = [1, 1], data = [16]\<rparr>]"
proof (intro conjI)
  show "NonparameterizedLinear_check_type_forward [x, W, b\<lparr>dtype := d\<rparr>] =
     NonparameterizedLinear_check_type_forward [x, W, b]"
    by (simp add: NonparameterizedLinear_check_type_forward_def ndim_def)
  show "NonparameterizedLinear_check_type_forward [x, W, b] = Inr () \<longrightarrow>
      dtype x = Float32 \<and> dtype W = Float32"
    by (simp add: NonparameterizedLinear_check_type_forward_def split: if_splits)
  show "NonparameterizedLinear_check_type_forward
     [\<lparr>dtype = Float32, shape = [1, 2], data = [3, 4 :: real]\<rparr>,
      \<lparr>dtype = Float32, shape = [1, 2], data = [1, 2]\<rparr>,
      \<lparr>dtype = Float64, shape = [1], data = [5]\<rparr>] = Inr ()"
    by (simp add: NonparameterizedLinear_check_type_forward_def ndim_def)
  show "ebind (NonparameterizedLinear_call NonparameterizedLinear_new
            [\<lparr>dtype = Float32, shape = [1, 2], data = [3, 4 :: real]\<rparr>,
             \<lparr>dtype = Float32, shape = [1, 2], data = [1, 2]\<rparr>,
             \<lparr>dtype = Float64, shape = [1], data = [5]\<rparr>])
     (\<lambda>(y, _). Inr y) = Inr [\<lparr>dtype = Float32, shape = [1, 1], data = [16]\<rparr>]"
    by (simp add: NonparameterizedLinear_call_def NonparameterizedLinear_check_type_forward_def
        NonparameterizedLinear_forward_def Linear_init_def Linear_forward_def np_defs upt_rec)
qed

text \<open>
  An instance where the validation passes with a 64-bit integer bias.
\<close>

theorem C10_bias_dtype_unchecked_witness:
  "NonparameterizedLinear_check_type_forward
     [\<lparr>dtype = Float32, shape = [1, 2], data = [3, 4 :: int]\<rparr>,
      \<lparr>dtype = Float32, shape = [1, 2], data = [1, 2]\<rparr>,
      \<lparr>dtype = Int64, shape = [1], data = [5]\<rparr>] = Inr () \<and>
   dtype \<lparr>dtype = Float32, shape = [1, 2], data = [3, 4 :: int]\<rparr> = Float32 \<and>
   dtype \<lparr>dtype = Float32, shape = [1, 2], data = [1, 2 :: int]\<rparr> = Float32"
proof -
  let ?x = "\<lparr>dtype = Float32, shape = [1, 2], data = [3, 4 :: int]\<rparr>"
  let ?W = "\<lparr>dtype = Float32, shape = [1, 2], data = [1, 2 :: int]\<rparr>"
  let ?b = "\<lparr>dtype = Int64, shape = [1], data = [5 :: int]\<rparr>"
  have c: "NonparameterizedLinear_check_type_forward [?x, ?W, ?b] = Inr ()"
    by (simp add: NonparameterizedLinear_check_type_forward_def ndim_def)
  from C10_bias_dtype_unchecked [where x = ?x and W = ?W and b = ?b and d = Float32]
  have "NonparameterizedLinear_check_type_forward [?x, ?W, ?b] = Inr () \<longrightarrow>
      dtype ?x = Float32 \<and> dtype ?W = Float32"
    by (elim conjE)
  with c show ?thesis by simp
qed

end
